theory Spec2Isabelle
  imports Complex_Main
begin

section \<open>Tensors of the numeric framework\<close>

text \<open>
  The populations of \<^verbatim>\<open>bindsnet/network/nodes/modules.py\<close> keep their state in
  framework tensors. A tensor is modelled by what the module reads and writes of it: its
  sizes (Python integers), its elements in row-major order, its numeric type, its device
  and its gradient flag. Elements are real numbers: rounding to the floating-point format
  is not modelled.
\<close>

datatype dtype = Float16 | Float32 | Float64

datatype device = CPU | CUDA nat

record tensor =
  dims :: "int list"
  vals :: "real list"
  dtype :: dtype
  device :: device
  requires_grad :: bool

text \<open>Python exceptions, by class and message.\<close>

datatype error =
    AssertionError string
  | TypeError string
  | KeyError string
  | RuntimeError string

definition numel :: "int list \<Rightarrow> nat" where
  "numel S = nat (prod_list S)"

text \<open>\<^verbatim>\<open>torch.FloatTensor()\<close>: the empty one-dimensional 32-bit float tensor.\<close>

definition FloatTensor :: tensor where
  "FloatTensor = \<lparr>dims = [0], vals = [], dtype = Float32, device = CPU, requires_grad = False\<rparr>"

text \<open>
  The sizes \<^verbatim>\<open>torch.zeros(*size, ...)\<close> accepts as separate arguments: at least one
  size, none of them negative.
\<close>

definition valid_size :: "int list \<Rightarrow> bool" where
  "valid_size S = (S \<noteq> [] \<and> list_all (\<lambda>d. 0 \<le> d) S)"

definition torch_zeros :: "int list \<Rightarrow> dtype \<Rightarrow> device \<Rightarrow> error + tensor" where
  "torch_zeros S ty dev =
     (if S = [] then Inl (TypeError ''zeros() received an invalid combination of arguments'')
      else if list_ex (\<lambda>d. d < 0) S
        then Inl (RuntimeError ''Trying to create tensor with negative dimension'')
      else Inr \<lparr>dims = S, vals = replicate (numel S) 0, dtype = ty, device = dev,
                requires_grad = False\<rparr>)"

definition torch_ones_like :: "tensor \<Rightarrow> tensor" where
  "torch_ones_like t =
     \<lparr>dims = dims t, vals = replicate (numel (dims t)) 1, dtype = dtype t, device = device t,
      requires_grad = False\<rparr>"

subsection \<open>Broadcasting\<close>

text \<open>
  Two size lists are aligned at their last entries; a pair of sizes is compatible when
  the sizes are equal or one of them is 1. \<open>bc_rev\<close> works on the reversed lists.
\<close>

fun bc_rev :: "int list \<Rightarrow> int list \<Rightarrow> int list option" where
  "bc_rev [] ys = Some ys"
| "bc_rev (x # xs) [] = Some (x # xs)"
| "bc_rev (x # xs) (y # ys) =
     (if x = y \<or> y = 1 then map_option ((#) x) (bc_rev xs ys)
      else if x = 1 then map_option ((#) y) (bc_rev xs ys)
      else None)"

definition broadcast_shapes :: "int list \<Rightarrow> int list \<Rightarrow> error + int list" where
  "broadcast_shapes A B =
     (case bc_rev (rev A) (rev B) of
        None \<Rightarrow> Inl (RuntimeError ''The size of tensor a must match the size of tensor b'')
      | Some R \<Rightarrow> Inr (rev R))"

text \<open>\<open>chunks m xs k\<close>: the first \<open>k\<close> consecutive blocks of length \<open>m\<close> of \<open>xs\<close>.\<close>

fun chunks :: "nat \<Rightarrow> 'a list \<Rightarrow> nat \<Rightarrow> 'a list list" where
  "chunks m xs 0 = []"
| "chunks m xs (Suc k) = take m xs # chunks m (drop m xs) k"

text \<open>
  \<open>expand A R xs\<close>: the row-major elements \<open>xs\<close> of a tensor of sizes \<open>A\<close>, repeated
  along every dimension where \<open>A\<close> has size 1 and the target \<open>R\<close> (of the same rank) has
  not.
\<close>

fun expand :: "int list \<Rightarrow> int list \<Rightarrow> 'a list \<Rightarrow> 'a list" where
  "expand (a # A) (r # R) xs =
     (if a = r then concat (map (expand A R) (chunks (numel A) xs (nat a)))
      else concat (replicate (nat r) (expand A R xs)))"
| "expand A R xs = xs"

definition pad_dims :: "nat \<Rightarrow> int list \<Rightarrow> int list" where
  "pad_dims k A = replicate (k - length A) 1 @ A"

text \<open>
  \<^verbatim>\<open>Tensor.expand\<close>: a tensor broadcast to the sizes \<open>S\<close>; an error unless its sizes
  broadcast to exactly \<open>S\<close>.
\<close>

definition torch_expand :: "tensor \<Rightarrow> int list \<Rightarrow> error + tensor" where
  "torch_expand t S =
     (if broadcast_shapes (dims t) S = Inr S
      then Inr (t\<lparr>dims := S, vals := expand (pad_dims (length S) (dims t)) S (vals t)\<rparr>)
      else Inl (RuntimeError ''The expanded size of the tensor must match the existing size''))"

text \<open>
  Type promotion among floating types: the wider type, except that a zero-dimensional
  operand does not widen a dimensioned one.
\<close>

fun dtype_rank :: "dtype \<Rightarrow> nat" where
  "dtype_rank Float16 = 0"
| "dtype_rank Float32 = 1"
| "dtype_rank Float64 = 2"

definition result_type :: "tensor \<Rightarrow> tensor \<Rightarrow> dtype" where
  "result_type a b =
     (if (dims a = []) = (dims b = [])
      then (if dtype_rank (dtype a) \<le> dtype_rank (dtype b) then dtype b else dtype a)
      else if dims a = [] then dtype b else dtype a)"

text \<open>
  Operands live on one device; a zero-dimensional CPU tensor may join a tensor of
  another device.
\<close>

definition result_device :: "tensor \<Rightarrow> tensor \<Rightarrow> error + device" where
  "result_device a b =
     (if device a = device b then Inr (device a)
      else if dims a = [] \<and> device a = CPU then Inr (device b)
      else if dims b = [] \<and> device b = CPU then Inr (device a)
      else Inl (RuntimeError ''Expected all tensors to be on the same device''))"

text \<open>\<^verbatim>\<open>a * b\<close> on tensors: the elementwise product of the broadcast operands.\<close>

definition torch_mul :: "tensor \<Rightarrow> tensor \<Rightarrow> error + tensor" where
  "torch_mul a b =
     (case broadcast_shapes (dims a) (dims b) of
        Inl e \<Rightarrow> Inl e
      | Inr R \<Rightarrow>
          (case result_device a b of
             Inl e \<Rightarrow> Inl e
           | Inr dev \<Rightarrow>
               Inr \<lparr>dims = R,
                    vals = map2 (*) (expand (pad_dims (length R) (dims a)) R (vals a))
                                    (expand (pad_dims (length R) (dims b)) R (vals b)),
                    dtype = result_type a b,
                    device = dev,
                    requires_grad = (requires_grad a \<or> requires_grad b)\<rparr>))"

section \<open>Nodes: the base class of neuron populations\<close>

text \<open>
  The attributes of \<^verbatim>\<open>Nodes\<close>: the timestep \<^verbatim>\<open>dt\<close>, the spike buffer \<^verbatim>\<open>s\<close>, the
  neuron count \<^verbatim>\<open>n\<close> and the \<^verbatim>\<open>shape\<close>; \<open>None\<close> is Python's \<^verbatim>\<open>None\<close>.
\<close>

record Nodes =
  dt :: "real option"
  s :: tensor
  n :: "int option"
  shape :: "int list option"

text \<open>
  \<^verbatim>\<open>reduce(mul, shape)\<close> has no initial value: it raises \<^verbatim>\<open>TypeError\<close> on an empty
  sequence and multiplies from the left otherwise.
\<close>

fun reduce_mul :: "int list \<Rightarrow> error + int" where
  "reduce_mul [] = Inl (TypeError ''reduce() of empty sequence with no initial value'')"
| "reduce_mul (x # xs) = Inr (foldl (*) x xs)"

text \<open>
  \<^verbatim>\<open>Nodes.__init__(n, shape)\<close>. An exception leaves no object, so the constructor
  returns the error or the new object. \<open>Nodes_init_shape\<close> is the part of the constructor
  after \<^verbatim>\<open>self.n\<close> is set: the choice of the shape and the assertion.
\<close>

definition Nodes_init_shape :: "Nodes \<Rightarrow> int \<Rightarrow> int list option \<Rightarrow> error + Nodes" where
  "Nodes_init_shape self k shape_arg =
     (let S = (case shape_arg of None \<Rightarrow> [k] | Some S' \<Rightarrow> S') in
      case reduce_mul S of
        Inl e \<Rightarrow> Inl e
      | Inr p \<Rightarrow>
          if k = p then Inr (self\<lparr>n := Some k, shape := Some S\<rparr>)
          else Inl (AssertionError ''No. of neurons and shape do not match''))"

definition Nodes_init :: "int option \<Rightarrow> int list option \<Rightarrow> error + Nodes" where
  "Nodes_init n_arg shape_arg =
     (let self = \<lparr>dt = None, s = FloatTensor, n = None, shape = None\<rparr> in
      case n_arg of
        None \<Rightarrow>
          (case shape_arg of
             None \<Rightarrow> Inr self
           | Some S \<Rightarrow>
               (case reduce_mul S of
                  Inl e \<Rightarrow> Inl e
                | Inr k \<Rightarrow> Nodes_init_shape self k shape_arg))
      | Some k \<Rightarrow> Nodes_init_shape self k shape_arg)"

text \<open>\<^verbatim>\<open>Nodes.set_dt\<close>.\<close>

definition Nodes_set_dt :: "real \<Rightarrow> 'a Nodes_scheme \<Rightarrow> 'a Nodes_scheme" where
  "Nodes_set_dt x self = self\<lparr>dt := Some x\<rparr>"

text \<open>
  \<^verbatim>\<open>Nodes.reset_(shape)\<close>, written \<open>Nodes_reset'\<close>. A method returns its outcome (the
  exception raised, or the returned value) together with the object as the call leaves
  it: an exception does not undo the assignments made before it.
\<close>

definition Nodes_reset' ::
  "int list option \<Rightarrow> 'a Nodes_scheme \<Rightarrow> (error + unit) \<times> 'a Nodes_scheme" where
  "Nodes_reset' shape_arg self =
     (let self1 = (case shape_arg of None \<Rightarrow> self | Some S \<Rightarrow> self\<lparr>shape := Some S\<rparr>) in
      case shape self1 of
        None \<Rightarrow> (Inr (), self1)
      | Some S \<Rightarrow>
          (case torch_zeros S (dtype (s self1)) (device (s self1)) of
             Inl e \<Rightarrow> (Inl e, self1)
           | Inr z \<Rightarrow> (Inr (), self1\<lparr>s := z\<rparr>)))"

section \<open>Constructor arguments and parameters\<close>

text \<open>
  A model parameter is passed as a Python float or as a tensor
  (\<^verbatim>\<open>Union[float, torch.Tensor]\<close>). \<^verbatim>\<open>torch.tensor(x, dtype=..., requires_grad=...)\<close>
  makes a zero-dimensional CPU tensor of a float and a copy of a tensor; with no
  \<^verbatim>\<open>dtype\<close> a float becomes a 32-bit float tensor and a tensor keeps its type.
  \<^verbatim>\<open>Parameter(t, requires_grad)\<close> registers \<open>t\<close> with the given gradient flag.
\<close>

datatype py_num = PyFloat real | PyTensor tensor

definition torch_tensor :: "py_num \<Rightarrow> dtype option \<Rightarrow> bool \<Rightarrow> tensor" where
  "torch_tensor x ty rg =
     (case x of
        PyFloat r \<Rightarrow>
          \<lparr>dims = [], vals = [r], dtype = (case ty of None \<Rightarrow> Float32 | Some d \<Rightarrow> d),
           device = CPU, requires_grad = rg\<rparr>
      | PyTensor t \<Rightarrow>
          t\<lparr>dtype := (case ty of None \<Rightarrow> dtype t | Some d \<Rightarrow> d), requires_grad := rg\<rparr>)"

definition Parameter :: "tensor \<Rightarrow> bool \<Rightarrow> tensor" where
  "Parameter t rg = t\<lparr>requires_grad := rg\<rparr>"

text \<open>A keyword argument left out takes the default of the signature.\<close>

definition arg_default :: "'a option \<Rightarrow> 'a \<Rightarrow> 'a" where
  "arg_default a d = (case a of None \<Rightarrow> d | Some x \<Rightarrow> x)"

section \<open>The numeric kernels\<close>

text \<open>
  \<^verbatim>\<open>F.if_update\<close>, \<^verbatim>\<open>F.lif_update\<close> and \<^verbatim>\<open>F.super_spike_update\<close> live in the module
  \<^verbatim>\<open>functional\<close>, which the populations import. The populations are modelled for any
  kernels: a kernel is an argument of the step function, a pure function that returns
  its result or raises.
\<close>

type_synonym if_kernel = "tensor \<Rightarrow> tensor \<Rightarrow> error + tensor"

type_synonym lif_kernel = "tensor \<Rightarrow> tensor \<Rightarrow> tensor \<Rightarrow> tensor \<Rightarrow> error + tensor"

type_synonym spike_kernel =
  "tensor \<Rightarrow> tensor \<Rightarrow> tensor \<Rightarrow> tensor \<Rightarrow> tensor \<Rightarrow> error + tensor \<times> tensor"

section \<open>IFNodes: integrate-and-fire populations\<close>

record IFNodes = Nodes +
  reset :: tensor
  thresh :: tensor
  lbound :: tensor
  scale :: tensor
  v :: tensor

text \<open>\<^verbatim>\<open>IFNodes.__init__(n, shape, thresh, reset, lbound, scale)\<close>.\<close>

definition IFNodes_init ::
  "int option \<Rightarrow> int list option \<Rightarrow> py_num option \<Rightarrow> py_num option \<Rightarrow> py_num option \<Rightarrow>
   py_num option \<Rightarrow> error + IFNodes" where
  "IFNodes_init n_arg shape_arg thresh_arg reset_arg lbound_arg scale_arg =
     (case Nodes_init n_arg shape_arg of
        Inl e \<Rightarrow> Inl e
      | Inr self \<Rightarrow>
          Inr \<lparr>dt = dt self, s = s self, n = n self, shape = shape self,
               reset =
                 Parameter (torch_tensor (arg_default reset_arg (PyFloat (-65.0))) (Some Float32) False)
                   True,
               thresh =
                 Parameter (torch_tensor (arg_default thresh_arg (PyFloat (-52.0))) (Some Float32) False)
                   True,
               lbound =
                 Parameter (torch_tensor (arg_default lbound_arg (PyFloat (-100000))) (Some Float32) False)
                   True,
               scale = torch_tensor (arg_default scale_arg (PyFloat 100.0)) None False,
               v = FloatTensor\<rparr>)"

text \<open>
  \<^verbatim>\<open>IFNodes.forward(x)\<close>: the outcome (the spikes returned, or the exception of a kernel)
  and the object as the call leaves it.
\<close>

definition IFNodes_forward ::
  "if_kernel \<Rightarrow> spike_kernel \<Rightarrow> tensor \<Rightarrow> IFNodes \<Rightarrow> (error + tensor) \<times> IFNodes" where
  "IFNodes_forward if_update super_spike_update x self =
     (case if_update x (IFNodes.v self) of
        Inl e \<Rightarrow> (Inl e, self)
      | Inr v1 \<Rightarrow>
          (let self1 = self\<lparr>IFNodes.v := v1\<rparr> in
           case super_spike_update (IFNodes.v self1) (IFNodes.thresh self1) (IFNodes.reset self1)
                  (IFNodes.lbound self1) (IFNodes.scale self1) of
             Inl e \<Rightarrow> (Inl e, self1)
           | Inr (s2, v2) \<Rightarrow>
               (let self2 = self1\<lparr>s := s2, IFNodes.v := v2\<rparr> in (Inr (s self2), self2))))"

text \<open>\<^verbatim>\<open>IFNodes.reset_(shape)\<close>.\<close>

definition IFNodes_reset' :: "int list option \<Rightarrow> IFNodes \<Rightarrow> (error + unit) \<times> IFNodes" where
  "IFNodes_reset' shape_arg self =
     (case Nodes_reset' shape_arg self of
        (Inl e, self1) \<Rightarrow> (Inl e, self1)
      | (Inr u, self1) \<Rightarrow>
          (case torch_mul (IFNodes.reset self1) (torch_ones_like (s self1)) of
             Inl e \<Rightarrow> (Inl e, self1)
           | Inr t \<Rightarrow> (Inr (), self1\<lparr>IFNodes.v := t\<rparr>)))"

section \<open>LIFNodes: leaky integrate-and-fire populations\<close>

record LIFNodes = Nodes +
  reset :: tensor
  thresh :: tensor
  lbound :: tensor
  rest :: tensor
  tc_decay :: tensor
  scale :: tensor
  v :: tensor

text \<open>\<^verbatim>\<open>LIFNodes.__init__(n, shape, thresh, reset, lbound, rest, tc_decay, scale)\<close>.\<close>

definition LIFNodes_init ::
  "int option \<Rightarrow> int list option \<Rightarrow> py_num option \<Rightarrow> py_num option \<Rightarrow> py_num option \<Rightarrow>
   py_num option \<Rightarrow> py_num option \<Rightarrow> py_num option \<Rightarrow> error + LIFNodes" where
  "LIFNodes_init n_arg shape_arg thresh_arg reset_arg lbound_arg rest_arg tc_decay_arg scale_arg =
     (case Nodes_init n_arg shape_arg of
        Inl e \<Rightarrow> Inl e
      | Inr self \<Rightarrow>
          Inr \<lparr>dt = dt self, s = s self, n = n self, shape = shape self,
               reset =
                 Parameter (torch_tensor (arg_default reset_arg (PyFloat (-65.0))) (Some Float32) False)
                   True,
               thresh =
                 Parameter (torch_tensor (arg_default thresh_arg (PyFloat (-52.0))) (Some Float32) False)
                   True,
               lbound =
                 Parameter (torch_tensor (arg_default lbound_arg (PyFloat (-100000))) (Some Float32) False)
                   True,
               rest =
                 Parameter (torch_tensor (arg_default rest_arg (PyFloat (-65.0))) (Some Float32) False)
                   True,
               tc_decay =
                 Parameter (torch_tensor (arg_default tc_decay_arg (PyFloat 100.0)) (Some Float32) False)
                   True,
               scale = torch_tensor (arg_default scale_arg (PyFloat 100.0)) None False,
               v = FloatTensor\<rparr>)"

text \<open>\<^verbatim>\<open>LIFNodes.forward(x)\<close>.\<close>

definition LIFNodes_forward ::
  "lif_kernel \<Rightarrow> spike_kernel \<Rightarrow> tensor \<Rightarrow> LIFNodes \<Rightarrow> (error + tensor) \<times> LIFNodes" where
  "LIFNodes_forward lif_update super_spike_update x self =
     (case lif_update x (LIFNodes.v self) (LIFNodes.tc_decay self) (LIFNodes.rest self) of
        Inl e \<Rightarrow> (Inl e, self)
      | Inr v1 \<Rightarrow>
          (let self1 = self\<lparr>LIFNodes.v := v1\<rparr> in
           case super_spike_update (LIFNodes.v self1) (LIFNodes.thresh self1)
                  (LIFNodes.reset self1) (LIFNodes.lbound self1) (LIFNodes.scale self1) of
             Inl e \<Rightarrow> (Inl e, self1)
           | Inr (s2, v2) \<Rightarrow>
               (let self2 = self1\<lparr>s := s2, LIFNodes.v := v2\<rparr> in (Inr (s self2), self2))))"

text \<open>\<^verbatim>\<open>LIFNodes.reset_(shape)\<close>.\<close>

definition LIFNodes_reset' :: "int list option \<Rightarrow> LIFNodes \<Rightarrow> (error + unit) \<times> LIFNodes" where
  "LIFNodes_reset' shape_arg self =
     (case Nodes_reset' shape_arg self of
        (Inl e, self1) \<Rightarrow> (Inl e, self1)
      | (Inr u, self1) \<Rightarrow>
          (case torch_mul (LIFNodes.reset self1) (torch_ones_like (s self1)) of
             Inl e \<Rightarrow> (Inl e, self1)
           | Inr t \<Rightarrow> (Inr (), self1\<lparr>LIFNodes.v := t\<rparr>)))"

section \<open>Restoring state from a snapshot\<close>

text \<open>
  A state dictionary maps names to tensors, in order. The framework's default
  \<^verbatim>\<open>Module._load_from_state_dict\<close>, which the hook of \<^verbatim>\<open>Nodes\<close> calls through
  \<^verbatim>\<open>super()\<close>, is modelled by what it does to the registered parameters and persistent
  buffers of the module (its local state): an entry of the dictionary under
  \<^verbatim>\<open>prefix + name\<close> is copied into the tensor of that name when the sizes agree and
  reported in \<^verbatim>\<open>error_msgs\<close> when they do not; a name with no entry is reported in
  \<^verbatim>\<open>missing_keys\<close> when \<^verbatim>\<open>strict\<close>; under \<^verbatim>\<open>strict\<close>, an entry of the prefix that
  names no local tensor is reported in \<^verbatim>\<open>unexpected_keys\<close>. It reads and writes
  nothing else of the object.
\<close>

type_synonym state_dict = "(string \<times> tensor) list"

record load_report =
  missing_keys :: "string list"
  unexpected_keys :: "string list"
  error_msgs :: "string list"

text \<open>\<^verbatim>\<open>param.copy_(input_param)\<close> for tensors of equal sizes.\<close>

definition copy' :: "tensor \<Rightarrow> tensor \<Rightarrow> tensor" where
  "copy' param input_param = param\<lparr>vals := vals input_param\<rparr>"

fun load_local ::
  "state_dict \<Rightarrow> string \<Rightarrow> bool \<Rightarrow> (string \<times> tensor) list \<Rightarrow> load_report \<Rightarrow>
   (string \<times> tensor) list \<times> load_report" where
  "load_local sd prefix strict [] rep = ([], rep)"
| "load_local sd prefix strict ((name, param) # local_state) rep =
     (let key = prefix @ name in
      case map_of sd key of
        Some input_param \<Rightarrow>
          if dims input_param \<noteq> dims param then
            (case load_local sd prefix strict local_state
                    (rep\<lparr>error_msgs := error_msgs rep @ [''size mismatch for '' @ key]\<rparr>) of
               (loaded, rep') \<Rightarrow> ((name, param) # loaded, rep'))
          else
            (case load_local sd prefix strict local_state rep of
               (loaded, rep') \<Rightarrow> ((name, copy' param input_param) # loaded, rep'))
      | None \<Rightarrow>
          (case load_local sd prefix strict local_state
                  (if strict then rep\<lparr>missing_keys := missing_keys rep @ [key]\<rparr> else rep) of
             (loaded, rep') \<Rightarrow> ((name, param) # loaded, rep')))"

definition starts_with :: "string \<Rightarrow> string \<Rightarrow> bool" where
  "starts_with key prefix = (take (length prefix) key = prefix)"

definition unexpected :: "state_dict \<Rightarrow> string \<Rightarrow> string list \<Rightarrow> string list" where
  "unexpected sd prefix names =
     filter (\<lambda>key. starts_with key prefix \<and>
                    takeWhile (\<lambda>c. c \<noteq> CHR ''.'') (drop (length prefix) key) \<notin> set names)
       (map fst sd)"

text \<open>
  \<open>local_state\<close> lists the registered tensors of an object (parameters first, then
  buffers, each in the order of registration) and \<open>put_state\<close> stores them back: the
  copies are made in place.
\<close>

definition Module_load_from_state_dict ::
  "('m \<Rightarrow> (string \<times> tensor) list) \<Rightarrow> ((string \<times> tensor) list \<Rightarrow> 'm \<Rightarrow> 'm) \<Rightarrow>
   state_dict \<Rightarrow> string \<Rightarrow> bool \<Rightarrow> load_report \<Rightarrow> 'm \<Rightarrow> 'm \<times> load_report" where
  "Module_load_from_state_dict local_state put_state sd prefix strict rep self =
     (case load_local sd prefix strict (local_state self) rep of
        (loaded, rep1) \<Rightarrow>
          (put_state loaded self,
           if strict
           then rep1\<lparr>unexpected_keys :=
                  unexpected_keys rep1 @ unexpected sd prefix (map fst (local_state self))\<rparr>
           else rep1))"

definition lookup_or :: "(string \<times> tensor) list \<Rightarrow> string \<Rightarrow> tensor \<Rightarrow> tensor" where
  "lookup_or loaded name old = (case map_of loaded name of None \<Rightarrow> old | Some t \<Rightarrow> t)"

definition Nodes_local_state :: "'a Nodes_scheme \<Rightarrow> (string \<times> tensor) list" where
  "Nodes_local_state self = [(''s'', s self)]"

definition Nodes_put_state :: "(string \<times> tensor) list \<Rightarrow> 'a Nodes_scheme \<Rightarrow> 'a Nodes_scheme" where
  "Nodes_put_state loaded self = self\<lparr>s := lookup_or loaded ''s'' (s self)\<rparr>"

definition IFNodes_local_state :: "IFNodes \<Rightarrow> (string \<times> tensor) list" where
  "IFNodes_local_state self =
     [(''reset'', IFNodes.reset self), (''thresh'', IFNodes.thresh self),
      (''lbound'', IFNodes.lbound self), (''s'', s self), (''v'', IFNodes.v self)]"

definition IFNodes_put_state :: "(string \<times> tensor) list \<Rightarrow> IFNodes \<Rightarrow> IFNodes" where
  "IFNodes_put_state loaded self =
     self\<lparr>s := lookup_or loaded ''s'' (s self),
          IFNodes.reset := lookup_or loaded ''reset'' (IFNodes.reset self),
          IFNodes.thresh := lookup_or loaded ''thresh'' (IFNodes.thresh self),
          IFNodes.lbound := lookup_or loaded ''lbound'' (IFNodes.lbound self),
          IFNodes.v := lookup_or loaded ''v'' (IFNodes.v self)\<rparr>"



text \<open>
  \<^verbatim>\<open>Nodes._load_from_state_dict\<close>. The call \<^verbatim>\<open>self.reset_\<close> is bound to the method of
  the object's class and \<^verbatim>\<open>super()._load_from_state_dict\<close> to the default loader on the
  object's registered tensors: both are arguments, \<open>reset_m\<close> and \<open>super_load\<close>. The
  result is the outcome, the object and the report lists as the call leaves them.
  (\<^verbatim>\<open>local_metadata\<close> is only handed on.)
\<close>

definition Nodes_load_from_state_dict ::
  "(int list option \<Rightarrow> 'm \<Rightarrow> (error + unit) \<times> 'm) \<Rightarrow>
   (state_dict \<Rightarrow> string \<Rightarrow> bool \<Rightarrow> load_report \<Rightarrow> 'm \<Rightarrow> 'm \<times> load_report) \<Rightarrow>
   state_dict \<Rightarrow> string \<Rightarrow> bool \<Rightarrow> load_report \<Rightarrow> 'm \<Rightarrow> (error + unit) \<times> 'm \<times> load_report" where
  "Nodes_load_from_state_dict reset_m super_load sd prefix strict rep self =
     (case map_of sd (prefix @ ''s'') of
        None \<Rightarrow> (Inl (KeyError (prefix @ ''s'')), self, rep)
      | Some t \<Rightarrow>
          (case reset_m (Some (dims t)) self of
             (Inl e, self1) \<Rightarrow> (Inl e, self1, rep)
           | (Inr u, self1) \<Rightarrow>
               (case super_load sd prefix strict rep self1 of
                  (self2, rep2) \<Rightarrow> (Inr (), self2, rep2))))"

text \<open>The hook as each class inherits it.\<close>

definition Nodes_load ::
  "state_dict \<Rightarrow> string \<Rightarrow> bool \<Rightarrow> load_report \<Rightarrow> Nodes \<Rightarrow> (error + unit) \<times> Nodes \<times> load_report" where
  "Nodes_load =
     Nodes_load_from_state_dict Nodes_reset'
       (Module_load_from_state_dict Nodes_local_state Nodes_put_state)"

definition IFNodes_load ::
  "state_dict \<Rightarrow> string \<Rightarrow> bool \<Rightarrow> load_report \<Rightarrow> IFNodes \<Rightarrow>
   (error + unit) \<times> IFNodes \<times> load_report" where
  "IFNodes_load =
     Nodes_load_from_state_dict IFNodes_reset'
       (Module_load_from_state_dict IFNodes_local_state IFNodes_put_state)"


section \<open>Populations with default parameters\<close>

text \<open>
  The populations \<^verbatim>\<open>IFNodes()\<close> and \<^verbatim>\<open>LIFNodes()\<close>: no count, no shape, every parameter
  at its default.
\<close>

definition scalar :: "real \<Rightarrow> bool \<Rightarrow> tensor" where
  "scalar x g = \<lparr>dims = [], vals = [x], dtype = Float32, device = CPU, requires_grad = g\<rparr>"

definition IFNodes_fresh :: IFNodes where
  "IFNodes_fresh =
     \<lparr>dt = None, s = FloatTensor, n = None, shape = None,
      IFNodes.reset = scalar (-65) True, IFNodes.thresh = scalar (-52) True,
      IFNodes.lbound = scalar (-100000) True, IFNodes.scale = scalar 100 False,
      IFNodes.v = FloatTensor\<rparr>"

definition LIFNodes_fresh :: LIFNodes where
  "LIFNodes_fresh =
     \<lparr>dt = None, s = FloatTensor, n = None, shape = None,
      reset = scalar (-65) True, thresh = scalar (-52) True, lbound = scalar (-100000) True,
      rest = scalar (-65) True, tc_decay = scalar 100 True,
      scale = scalar 100 False, v = FloatTensor\<rparr>"

section \<open>The kernels as the spec describes them\<close>

text \<open>
  Modelled from the spec: \<^verbatim>\<open>F.if_update\<close>, the integration kernel of the module
  \<^verbatim>\<open>functional\<close>. The spec: it adds the drive to the previous voltage, with no decay;
  the result has the shape of the drive; a voltage that is still empty counts as zeros of
  the shape of the drive.
\<close>

definition if_update_spec :: if_kernel where
  "if_update_spec x w =
     (if vals w = [] then Inr x
      else if dims w = dims x then Inr (x\<lparr>vals := map2 (+) (vals x) (vals w)\<rparr>)
      else Inl (RuntimeError ''The size of tensor a must match the size of tensor b''))"

text \<open>
  Modelled from the spec: \<^verbatim>\<open>F.super_spike_update\<close>, the spike-and-reset kernel. The spec:
  a spike (1) where the voltage is at least the threshold and 0 elsewhere; the voltage is
  overwritten with the reset voltage where a spike occurred and then clamped below at the
  lower bound. The parameters are broadcast to the sizes of the voltage.
\<close>

definition super_spike_update_spec :: spike_kernel where
  "super_spike_update_spec w th rs lb sc =
     (case torch_expand th (dims w) of
        Inl e \<Rightarrow> Inl e
      | Inr th' \<Rightarrow>
          (case torch_expand rs (dims w) of
             Inl e \<Rightarrow> Inl e
           | Inr rs' \<Rightarrow>
               (case torch_expand lb (dims w) of
                  Inl e \<Rightarrow> Inl e
                | Inr lb' \<Rightarrow>
                    (let sp = map2 (\<lambda>x t. if t \<le> x then 1 else 0) (vals w) (vals th');
                         w1 = map2 (\<lambda>(x, k) r. if k = 1 then r else x) (zip (vals w) sp) (vals rs');
                         w2 = map2 max w1 (vals lb')
                     in Inr (w\<lparr>vals := sp\<rparr>, w\<lparr>vals := w2\<rparr>)))))"

section \<open>Example inputs\<close>

text \<open>
  A drive of two equal elements; the population \<^verbatim>\<open>IFNodes()\<close> after one step under the
  drive \<open>-60\<close>, which stays below the threshold; the base population \<^verbatim>\<open>Nodes()\<close>; a
  snapshot with a spikes entry of sizes \<open>[2, 3]\<close> under the prefix \<^verbatim>\<open>X.\<close>; the empty report
  lists; and \<^verbatim>\<open>IFNodes(reset=torch.tensor([-65., -60.]))\<close>, whose reset voltage has one
  element per neuron of a population of two.
\<close>

definition drive2 :: "real \<Rightarrow> tensor" where
  "drive2 x = \<lparr>dims = [2], vals = [x, x], dtype = Float32, device = CPU, requires_grad = False\<rparr>"

definition IFNodes_stepped :: IFNodes where
  "IFNodes_stepped =
     IFNodes_fresh\<lparr>s := drive2 0, IFNodes.v := drive2 (-60)\<rparr>"

definition Nodes_fresh :: Nodes where
  "Nodes_fresh = \<lparr>dt = None, s = FloatTensor, n = None, shape = None\<rparr>"

definition spikes23 :: tensor where
  "spikes23 =
     \<lparr>dims = [2, 3], vals = [0, 1, 0, 0, 0, 1], dtype = Float32, device = CPU,
      requires_grad = False\<rparr>"

definition snapshot23 :: state_dict where
  "snapshot23 = [(''X.s'', spikes23)]"

definition empty_report :: load_report where
  "empty_report = \<lparr>missing_keys = [], unexpected_keys = [], error_msgs = []\<rparr>"

definition IFNodes_pair :: IFNodes where
  "IFNodes_pair =
     IFNodes_fresh\<lparr>IFNodes.reset :=
       \<lparr>dims = [2], vals = [-65, -60], dtype = Float32, device = CPU, requires_grad = True\<rparr>\<rparr>"

section \<open>The default loader, entry by entry\<close>





section \<open>Parameters that broadcast to a shape\<close>



section \<open>Facts about the tensor operations\<close>

lemma numel_Cons: "0 \<le> a \<Longrightarrow> numel (a # A) = nat a * numel A"
  by (simp add: numel_def nat_mult_distrib)

lemma numel_Nil: "numel [] = 1"
  by (simp add: numel_def)

lemma numel_pad: "numel (pad_dims k A) = numel A"
  by (simp add: numel_def pad_dims_def)

lemma pad_dims_same: "pad_dims (length S) S = S"
  by (simp add: pad_dims_def)

lemma length_chunks: "length (chunks m xs k) = k"
  by (induction k arbitrary: xs) simp_all

lemma chunk_lengths: "length xs = k * m \<Longrightarrow> c \<in> set (chunks m xs k) \<Longrightarrow> length c = m"
proof (induction k arbitrary: xs)
  case 0
  then show ?case by simp
next
  case (Suc k)
  have "length (drop m xs) = k * m"
    using Suc.prems(1) by simp
  then show ?case
    using Suc.IH [of "drop m xs"] Suc.prems by auto
qed

lemma concat_chunks: "length xs = k * m \<Longrightarrow> concat (chunks m xs k) = xs"
  by (induction k arbitrary: xs) simp_all

lemma sum_list_const: "(\<And>x. x \<in> set xs \<Longrightarrow> f x = (c::nat)) \<Longrightarrow> sum_list (map f xs) = length xs * c"
  by (induction xs) simp_all

lemma length_concat_replicate: "length (concat (replicate k xs)) = k * length xs"
  by (induction k) simp_all

lemma length_expand:
  "list_all2 (\<lambda>a r. a = r \<or> a = 1) A R \<Longrightarrow> list_all (\<lambda>d. 0 \<le> d) R \<Longrightarrow>
   length xs = numel A \<Longrightarrow> length (expand A R xs) = numel R"
proof (induction A R arbitrary: xs rule: list_all2_induct)
  case Nil
  then show ?case by simp
next
  case (Cons a A r R)
  have r0: "0 \<le> r" and R0: "list_all (\<lambda>d. 0 \<le> d) R"
    using Cons.prems(1) by simp_all
  show ?case
  proof (cases "a = r")
    case True
    have len: "length xs = nat a * numel A"
      using Cons.prems(2) r0 True by (simp add: numel_Cons)
    have each: "\<And>c. c \<in> set (chunks (numel A) xs (nat a)) \<Longrightarrow> length (expand A R c) = numel R"
      using Cons.IH [OF R0] chunk_lengths [OF len] by blast
    have "length (concat (map (expand A R) (chunks (numel A) xs (nat a)))) = nat a * numel R"
      using each by (simp add: length_concat comp_def sum_list_const length_chunks)
    then show ?thesis
      using True r0 by (simp add: numel_Cons)
  next
    case False
    then have a1: "a = 1"
      using Cons.hyps(1) by simp
    have "length xs = numel A"
      using Cons.prems(2) a1 by (simp add: numel_Cons)
    then have "length (expand A R xs) = numel R"
      using Cons.IH [OF R0] by simp
    then show ?thesis
      using False r0 by (simp add: numel_Cons length_concat_replicate)
  qed
qed

lemma expand_same:
  "list_all (\<lambda>d. 0 \<le> d) S \<Longrightarrow> length xs = numel S \<Longrightarrow> expand S S xs = xs"
proof (induction S arbitrary: xs)
  case Nil
  then show ?case by simp
next
  case (Cons a S)
  have a0: "0 \<le> a" and S0: "list_all (\<lambda>d. 0 \<le> d) S"
    using Cons.prems(1) by simp_all
  have len: "length xs = nat a * numel S"
    using Cons.prems(2) a0 by (simp add: numel_Cons)
  have "map (expand S S) (chunks (numel S) xs (nat a)) = chunks (numel S) xs (nat a)"
    using Cons.IH [OF S0] chunk_lengths [OF len] by (simp add: map_idI)
  then show ?case
    using concat_chunks [OF len] by simp
qed

lemma concat_replicate_replicate: "concat (replicate k (replicate m x)) = replicate (k * m) x"
  by (induction k) (simp_all add: replicate_add)

lemma expand_scalar:
  "list_all (\<lambda>d. 0 \<le> d) S \<Longrightarrow> expand (replicate (length S) 1) S [x] = replicate (numel S) x"
proof (induction S)
  case Nil
  then show ?case by (simp add: numel_Nil)
next
  case (Cons r S)
  have r0: "0 \<le> r" and S0: "list_all (\<lambda>d. 0 \<le> d) S"
    using Cons.prems by simp_all
  have numel1: "numel (replicate (length S) 1) = 1"
    by (simp add: numel_def)
  show ?case
  proof (cases "r = 1")
    case True
    then show ?thesis
      using Cons.IH [OF S0] numel1 by (simp add: numel_Cons)
  next
    case False
    then show ?thesis
      using Cons.IH [OF S0] r0 by (simp add: numel_Cons concat_replicate_replicate)
  qed
qed

lemma bc_rev_target:
  "bc_rev xs ys = Some ys \<Longrightarrow>
   list_all2 (\<lambda>a r. a = r \<or> a = 1) (xs @ replicate (length ys - length xs) 1) ys"
proof (induction xs ys rule: bc_rev.induct)
  case (1 ys)
  then show ?case by (simp add: list_all2_conv_all_nth)
next
  case (2 x xs)
  then show ?case by simp
next
  case (3 x xs y ys)
  then show ?case by (auto split: if_splits)
qed

lemma bc_rev_length: "bc_rev xs ys = Some ys \<Longrightarrow> length xs \<le> length ys"
  by (induction xs ys rule: bc_rev.induct) (auto split: if_splits)

lemma broadcast_to_target:
  assumes "broadcast_shapes A S = Inr S"
  shows "list_all2 (\<lambda>a r. a = r \<or> a = 1) (pad_dims (length S) A) S"
proof -
  have "bc_rev (rev A) (rev S) = Some (rev S)"
    using assms by (auto simp: broadcast_shapes_def split: option.splits)
  then have "list_all2 (\<lambda>a r. a = r \<or> a = 1)
               (rev A @ replicate (length S - length A) 1) (rev S)"
    using bc_rev_target [of "rev A" "rev S"] by simp
  then have "list_all2 (\<lambda>a r. a = r \<or> a = 1)
               (rev (rev A @ replicate (length S - length A) 1)) (rev (rev S))"
    by (simp only: list_all2_rev)
  then show ?thesis
    by (simp add: pad_dims_def)
qed

lemma map2_mul_ones: "map2 (*) xs (replicate (length xs) (1::real)) = xs"
  by (induction xs) simp_all

lemma torch_mul_ones:
  assumes bc: "broadcast_shapes (dims a) S = Inr S"
    and S0: "list_all (\<lambda>d. 0 \<le> d) S"
    and wf: "length (vals a) = numel (dims a)"
    and dev: "result_device a b = Inr d"
    and b: "dims b = S" "vals b = replicate (numel S) 1"
  shows "torch_mul a b =
           Inr \<lparr>dims = S, vals = expand (pad_dims (length S) (dims a)) S (vals a),
                dtype = result_type a b, device = d,
                requires_grad = (requires_grad a \<or> requires_grad b)\<rparr>"
proof -
  have len: "length (expand (pad_dims (length S) (dims a)) S (vals a)) = numel S"
    using length_expand [OF broadcast_to_target [OF bc] S0] wf by (simp add: numel_pad)
  have ones: "expand (pad_dims (length S) (dims b)) S (vals b) = replicate (numel S) 1"
    using expand_same [OF S0, of "replicate (numel S) 1"] b by (simp add: pad_dims_same)
  have "map2 (*) (expand (pad_dims (length S) (dims a)) S (vals a)) (replicate (numel S) 1) =
          expand (pad_dims (length S) (dims a)) S (vals a)"
    using map2_mul_ones [of "expand (pad_dims (length S) (dims a)) S (vals a)"] len by simp
  then show ?thesis
    using bc dev b ones by (simp add: torch_mul_def)
qed

section \<open>Facts about reset\<close>







lemma torch_zeros_again:
  "torch_zeros S ty dev = Inr z \<Longrightarrow> torch_zeros S (dtype z) (device z) = Inr z"
  by (auto simp: torch_zeros_def split: if_splits)

lemma torch_zeros_error:
  "torch_zeros S ty dev = Inl e \<Longrightarrow> torch_zeros S ty' dev' = Inl e"
  by (auto simp: torch_zeros_def split: if_splits)

lemma Nodes_reset_again:
  "Nodes_reset' A (snd (Nodes_reset' A self)) = Nodes_reset' A self"
proof -
  define self1 where "self1 = (case A of None \<Rightarrow> self | Some S \<Rightarrow> self\<lparr>shape := Some S\<rparr>)"
  have same: "(case A of None \<Rightarrow> self1 | Some S \<Rightarrow> self1\<lparr>shape := Some S\<rparr>) = self1"
    by (simp add: self1_def split: option.splits)
  show ?thesis
  proof (cases "shape self1")
    case None
    then show ?thesis
      using same by (simp add: Nodes_reset'_def self1_def [symmetric])
  next
    case (Some S)
    show ?thesis
    proof (cases "torch_zeros S (dtype (s self1)) (device (s self1))")
      case (Inl e)
      then show ?thesis
        using same Some by (simp add: Nodes_reset'_def self1_def [symmetric])
    next
      case (Inr z)
      have fst_call: "Nodes_reset' A self = (Inr (), self1\<lparr>s := z\<rparr>)"
        using Some Inr by (simp add: Nodes_reset'_def self1_def [symmetric])
      have keep: "(case A of None \<Rightarrow> self1\<lparr>s := z\<rparr> | Some S' \<Rightarrow> self1\<lparr>s := z\<rparr>\<lparr>shape := Some S'\<rparr>) = self1\<lparr>s := z\<rparr>"
        using Some by (auto simp: self1_def split: option.splits)
      have "Nodes_reset' A (self1\<lparr>s := z\<rparr>) = (Inr (), self1\<lparr>s := z\<rparr>)"
        unfolding Nodes_reset'_def keep Let_def
        using Some torch_zeros_again [OF Inr] by simp
      then show ?thesis
        using fst_call by simp
    qed
  qed
qed

lemma Nodes_reset_IF_v:
  "Nodes_reset' A (self\<lparr>IFNodes.v := t\<rparr>) =
     (fst (Nodes_reset' A self), (snd (Nodes_reset' A self))\<lparr>IFNodes.v := t\<rparr>)"
  by (simp add: Nodes_reset'_def Let_def split: option.splits sum.splits)

lemma Nodes_reset_LIF_v:
  "Nodes_reset' A (self\<lparr>LIFNodes.v := t\<rparr>) =
     (fst (Nodes_reset' A self), (snd (Nodes_reset' A self))\<lparr>LIFNodes.v := t\<rparr>)"
  by (simp add: Nodes_reset'_def Let_def split: option.splits sum.splits)

lemma IFNodes_reset_again:
  "IFNodes_reset' A (snd (IFNodes_reset' A self)) = IFNodes_reset' A self"
proof -
  obtain r self1 where base: "Nodes_reset' A self = (r, self1)"
    by (cases "Nodes_reset' A self")
  have again: "Nodes_reset' A self1 = (r, self1)"
    using Nodes_reset_again [of A self] base by simp
  show ?thesis
  proof (cases r)
    case (Inl e)
    then show ?thesis
      using base again by (simp add: IFNodes_reset'_def)
  next
    case (Inr u)
    show ?thesis
    proof (cases "torch_mul (IFNodes.reset self1) (torch_ones_like (s self1))")
      case (Inl e)
      then show ?thesis
        using base again Inr by (simp add: IFNodes_reset'_def)
    next
      case mul: (Inr t)
      have "IFNodes_reset' A self = (Inr (), self1\<lparr>IFNodes.v := t\<rparr>)"
        using base Inr mul by (simp add: IFNodes_reset'_def)
      moreover have "IFNodes_reset' A (self1\<lparr>IFNodes.v := t\<rparr>) = (Inr (), self1\<lparr>IFNodes.v := t\<rparr>)"
        using again Inr mul by (simp add: IFNodes_reset'_def Nodes_reset_IF_v)
      ultimately show ?thesis by simp
    qed
  qed
qed

lemma LIFNodes_reset_again:
  "LIFNodes_reset' A (snd (LIFNodes_reset' A self)) = LIFNodes_reset' A self"
proof -
  obtain r self1 where base: "Nodes_reset' A self = (r, self1)"
    by (cases "Nodes_reset' A self")
  have again: "Nodes_reset' A self1 = (r, self1)"
    using Nodes_reset_again [of A self] base by simp
  show ?thesis
  proof (cases r)
    case (Inl e)
    then show ?thesis
      using base again by (simp add: LIFNodes_reset'_def)
  next
    case (Inr u)
    show ?thesis
    proof (cases "torch_mul (LIFNodes.reset self1) (torch_ones_like (s self1))")
      case (Inl e)
      then show ?thesis
        using base again Inr by (simp add: LIFNodes_reset'_def)
    next
      case mul: (Inr t)
      have "LIFNodes_reset' A self = (Inr (), self1\<lparr>LIFNodes.v := t\<rparr>)"
        using base Inr mul by (simp add: LIFNodes_reset'_def)
      moreover have "LIFNodes_reset' A (self1\<lparr>LIFNodes.v := t\<rparr>) = (Inr (), self1\<lparr>LIFNodes.v := t\<rparr>)"
        using again Inr mul by (simp add: LIFNodes_reset'_def Nodes_reset_LIF_v)
      ultimately show ?thesis by simp
    qed
  qed
qed



lemma IFNodes_fresh_init: "IFNodes_init None None None None None None = Inr IFNodes_fresh"
  by (simp add: IFNodes_init_def Nodes_init_def IFNodes_fresh_def scalar_def torch_tensor_def
      Parameter_def arg_default_def)

lemma LIFNodes_fresh_init:
  "LIFNodes_init None None None None None None None None = Inr LIFNodes_fresh"
  by (simp add: LIFNodes_init_def Nodes_init_def LIFNodes_fresh_def scalar_def torch_tensor_def
      Parameter_def arg_default_def)


section \<open>Facts about construction\<close>

lemma foldl_mul_prod: "foldl (*) (x::int) xs = x * prod_list xs"
  by (induction xs arbitrary: x) (simp_all add: mult.assoc)

lemma reduce_mul_nonempty: "S \<noteq> [] \<Longrightarrow> reduce_mul S = Inr (prod_list S)"
  by (cases S) (simp_all add: foldl_mul_prod)

section \<open>Facts about the kernels and the step\<close>

lemma kernels_on_fresh:
  "if_update_spec (drive2 (-60)) FloatTensor = Inr (drive2 (-60)) \<and>
   super_spike_update_spec (drive2 (-60)) (scalar (-52) True) (scalar (-65) True)
     (scalar (-100000) True) (scalar 100 False) = Inr (drive2 0, drive2 (-60))"
  by (simp add: if_update_spec_def super_spike_update_spec_def torch_expand_def
      broadcast_shapes_def pad_dims_def scalar_def FloatTensor_def drive2_def numel_def
      Let_def eval_nat_numeral)

lemma IFNodes_stepped_reached:
  "IFNodes_forward if_update_spec super_spike_update_spec (drive2 (-60)) IFNodes_fresh =
     (Inr (drive2 0), IFNodes_stepped)"
  using kernels_on_fresh
  by (simp add: IFNodes_forward_def IFNodes_fresh_def IFNodes_stepped_def)

lemma torch_mul_scalar_ones:
  assumes "list_all (\<lambda>d. 0 \<le> d) (dims sp)" and "dims r = []" and "vals r = [x]"
    and "device r = device sp \<or> device r = CPU"
  shows "\<exists>t. torch_mul r (torch_ones_like sp) = Inr t \<and> dims t = dims sp \<and>
           vals t = replicate (numel (dims sp)) x \<and> device t = device sp"
proof -
  let ?b = "torch_ones_like sp"
  have bc: "broadcast_shapes (dims r) (dims sp) = Inr (dims sp)"
    using assms(2) by (simp add: broadcast_shapes_def)
  have wf: "length (vals r) = numel (dims r)"
    using assms(2,3) by (simp add: numel_def)
  have dev: "result_device r ?b = Inr (device sp)"
    using assms(2,4) by (auto simp: result_device_def torch_ones_like_def)
  have b: "dims ?b = dims sp" "vals ?b = replicate (numel (dims sp)) 1"
    by (simp_all add: torch_ones_like_def)
  have "expand (pad_dims (length (dims sp)) (dims r)) (dims sp) (vals r) =
          replicate (numel (dims sp)) x"
    using expand_scalar [OF assms(1), of x] assms(2,3) by (simp add: pad_dims_def)
  then show ?thesis
    using torch_mul_ones [OF bc assms(1) wf dev b] by simp
qed

lemma IFNodes_forward_reads:
  assumes "if_update x (IFNodes.v p) = if_update' x (IFNodes.v p)"
    and "\<And>v1. if_update x (IFNodes.v p) = Inr v1 \<Longrightarrow>
      super_spike_update v1 (IFNodes.thresh p) (IFNodes.reset p) (IFNodes.lbound p) (IFNodes.scale p) =
      super_spike_update' v1 (IFNodes.thresh p) (IFNodes.reset p) (IFNodes.lbound p) (IFNodes.scale p)"
  shows "IFNodes_forward if_update super_spike_update x p =
         IFNodes_forward if_update' super_spike_update' x p"
proof (cases "if_update x (IFNodes.v p)")
  case (Inl e)
  moreover have "if_update' x (IFNodes.v p) = Inl e"
    using assms(1) Inl by simp
  ultimately show ?thesis
    by (simp add: IFNodes_forward_def)
next
  case (Inr v1)
  moreover have "if_update' x (IFNodes.v p) = Inr v1"
    using assms(1) Inr by simp
  moreover note assms(2) [OF Inr]
  ultimately show ?thesis
    by (simp add: IFNodes_forward_def)
qed

lemma LIFNodes_forward_reads:
  assumes "lif_update x (LIFNodes.v q) (LIFNodes.tc_decay q) (LIFNodes.rest q) =
     lif_update' x (LIFNodes.v q) (LIFNodes.tc_decay q) (LIFNodes.rest q)"
    and "\<And>w1. lif_update x (LIFNodes.v q) (LIFNodes.tc_decay q) (LIFNodes.rest q) = Inr w1 \<Longrightarrow>
      super_spike_update w1 (LIFNodes.thresh q) (LIFNodes.reset q) (LIFNodes.lbound q) (LIFNodes.scale q) =
      super_spike_update' w1 (LIFNodes.thresh q) (LIFNodes.reset q) (LIFNodes.lbound q) (LIFNodes.scale q)"
  shows "LIFNodes_forward lif_update super_spike_update x q =
         LIFNodes_forward lif_update' super_spike_update' x q"
proof (cases "lif_update x (LIFNodes.v q) (LIFNodes.tc_decay q) (LIFNodes.rest q)")
  case (Inl e)
  moreover have "lif_update' x (LIFNodes.v q) (LIFNodes.tc_decay q) (LIFNodes.rest q) = Inl e"
    using assms(1) Inl by simp
  ultimately show ?thesis
    by (simp add: LIFNodes_forward_def)
next
  case (Inr w1)
  moreover have "lif_update' x (LIFNodes.v q) (LIFNodes.tc_decay q) (LIFNodes.rest q) = Inr w1"
    using assms(1) Inr by simp
  moreover note assms(2) [OF Inr]
  ultimately show ?thesis
    by (simp add: LIFNodes_forward_def)
qed

section \<open>Facts about the default loader\<close>









lemma snapshot23_spikes:
  "map_of snapshot23 (''X.'' @ ''s'') = Some spikes23 \<and> valid_size (dims spikes23) \<and>
   dims spikes23 = [2, 3]"
  by (simp add: snapshot23_def spikes23_def valid_size_def)

section \<open>The claims\<close>

text \<open>
  C1. The claim: \<^verbatim>\<open>n == product(shape)\<close> holds after construction and after any reshape,
  and a reset with a new shape updates the neuron count along with the shape.
  \<^verbatim>\<open>Nodes.reset_\<close> assigns \<^verbatim>\<open>self.shape\<close> and never \<^verbatim>\<open>self.n\<close>: a population built
  with \<^verbatim>\<open>n = 4\<close> and reset to the shape \<^verbatim>\<open>[2, 3]\<close> keeps \<^verbatim>\<open>n = 4\<close> beside a shape of
  six neurons, and a population with deferred shape keeps \<^verbatim>\<open>n = None\<close>; no reset
  changes \<^verbatim>\<open>n\<close>. The constructor asserts the invariant that the reset breaks.
\<close>

theorem reset_leaves_n_stale:
  "Nodes_init (Some 4) None = Inr \<lparr>dt = None, s = FloatTensor, n = Some 4, shape = Some [4]\<rparr> \<and>
   Nodes_reset' (Some [2, 3]) \<lparr>dt = None, s = FloatTensor, n = Some 4, shape = Some [4]\<rparr> =
     (Inr (),
      \<lparr>dt = None,
       s = \<lparr>dims = [2, 3], vals = [0, 0, 0, 0, 0, 0], dtype = Float32, device = CPU,
            requires_grad = False\<rparr>,
       n = Some 4, shape = Some [2, 3]\<rparr>) \<and>
   Nodes_init None None = Inr \<lparr>dt = None, s = FloatTensor, n = None, shape = None\<rparr> \<and>
   Nodes_reset' (Some [2, 3]) \<lparr>dt = None, s = FloatTensor, n = None, shape = None\<rparr> =
     (Inr (),
      \<lparr>dt = None,
       s = \<lparr>dims = [2, 3], vals = [0, 0, 0, 0, 0, 0], dtype = Float32, device = CPU,
            requires_grad = False\<rparr>,
       n = None, shape = Some [2, 3]\<rparr>) \<and>
   reduce_mul [2, 3] = Inr 6 \<and>
   n (snd (Nodes_reset' A b)) = n b"
proof -
  have "n (snd (Nodes_reset' A b)) = n b"
    by (simp add: Nodes_reset'_def Let_def split: option.splits sum.splits)
  then show ?thesis
    by (simp add: Nodes_init_def Nodes_init_shape_def Nodes_reset'_def torch_zeros_def
        FloatTensor_def numel_def eval_nat_numeral)
qed



text \<open>
  C3, as stated, fails: with the empty shape the constructor raises the \<^verbatim>\<open>TypeError\<close> of
  \<^verbatim>\<open>reduce\<close>, whether the shape is the only argument or comes with \<^verbatim>\<open>n = 1\<close>, the
  product of no sizes.
\<close>

theorem Nodes_init_empty_shape:
  "Nodes_init None (Some []) = Inl (TypeError ''reduce() of empty sequence with no initial value'') \<and>
   Nodes_init (Some 1) (Some []) = Inl (TypeError ''reduce() of empty sequence with no initial value'')"
  by (simp add: Nodes_init_def Nodes_init_shape_def)

text \<open>
  C3, amended. For every shape other than the empty one: construction fails exactly when
  both \<^verbatim>\<open>n\<close> and \<^verbatim>\<open>shape\<close> are given and \<^verbatim>\<open>n\<close> is not the product of the shape, and
  then with the assertion's error; when it succeeds with a shape given, the stored shape
  is the given one and the stored count its product. With the empty shape it fails with
  the \<^verbatim>\<open>TypeError\<close> of \<^verbatim>\<open>reduce\<close>.
\<close>

theorem Nodes_init_shape_check:
  "(shape_arg \<noteq> Some [] \<longrightarrow>
      ((\<exists>e. Nodes_init n_arg shape_arg = Inl e) \<longleftrightarrow>
         (\<exists>k S. n_arg = Some k \<and> shape_arg = Some S \<and> k \<noteq> prod_list S)) \<and>
      (\<forall>e. Nodes_init n_arg shape_arg = Inl e \<longrightarrow>
         e = AssertionError ''No. of neurons and shape do not match'') \<and>
      (\<forall>p S. Nodes_init n_arg shape_arg = Inr p \<longrightarrow> shape_arg = Some S \<longrightarrow>
         shape p = Some S \<and> n p = Some (prod_list S)) \<and>
      (\<forall>p k. Nodes_init n_arg shape_arg = Inr p \<longrightarrow> n_arg = Some k \<longrightarrow>
         n p = Some k \<and> (shape_arg = None \<longrightarrow> shape p = Some [k]))) \<and>
   (shape_arg = Some [] \<longrightarrow>
      Nodes_init n_arg shape_arg =
        Inl (TypeError ''reduce() of empty sequence with no initial value''))"
  by (cases n_arg; cases shape_arg)
    (auto simp: Nodes_init_def Nodes_init_shape_def reduce_mul_nonempty Let_def)

theorem Nodes_init_shape_check_witness:
  "Some [2, 3] \<noteq> Some ([] :: int list) \<and>
   (\<exists>p. Nodes_init (Some 6) (Some [2, 3]) = Inr p \<and> shape p = Some [2, 3] \<and> n p = Some 6) \<and>
   Nodes_init (Some 5) (Some [2, 3]) = Inl (AssertionError ''No. of neurons and shape do not match'') \<and>
   (\<exists>p. Nodes_init None (Some [2, 3]) = Inr p \<and> shape p = Some [2, 3] \<and> n p = Some 6) \<and>
   (\<exists>p. Nodes_init (Some 4) None = Inr p \<and> shape p = Some [4] \<and> n p = Some 4) \<and>
   (\<exists>p. Nodes_init None None = Inr p) \<and>
   Nodes_init (Some 1) (Some []) =
     Inl (TypeError ''reduce() of empty sequence with no initial value'')"
proof -
  have ne: "Some [2, 3] \<noteq> Some ([] :: int list)" by simp
  have a: "\<exists>p. Nodes_init (Some 6) (Some [2, 3]) = Inr p \<and> shape p = Some [2, 3] \<and> n p = Some 6"
    using Nodes_init_shape_check [of "Some [2, 3]" "Some 6"]
    by (cases "Nodes_init (Some 6) (Some [2, 3])") auto
  have b: "Nodes_init (Some 5) (Some [2, 3]) = Inl (AssertionError ''No. of neurons and shape do not match'')"
    using Nodes_init_shape_check [of "Some [2, 3]" "Some 5"]
    by (cases "Nodes_init (Some 5) (Some [2, 3])") auto
  have c: "\<exists>p. Nodes_init None (Some [2, 3]) = Inr p \<and> shape p = Some [2, 3] \<and> n p = Some 6"
    using Nodes_init_shape_check [of "Some [2, 3]" None]
    by (cases "Nodes_init None (Some [2, 3])") auto
  have d: "\<exists>p. Nodes_init (Some 4) None = Inr p \<and> shape p = Some [4] \<and> n p = Some 4"
    using Nodes_init_shape_check [of None "Some 4"]
    by (cases "Nodes_init (Some 4) None") auto
  have e: "\<exists>p. Nodes_init None None = Inr p"
    using Nodes_init_shape_check [of None None]
    by (cases "Nodes_init None None") auto
  have f: "Nodes_init (Some 1) (Some []) =
     Inl (TypeError ''reduce() of empty sequence with no initial value'')"
    using Nodes_init_shape_check [of "Some []" "Some 1"] by simp
  show ?thesis using ne a b c d e f by blast
qed



text \<open>
  C5, as stated, fails for the models: \<^verbatim>\<open>IFNodes.reset_\<close> assigns the voltage after the
  base method has returned, whether or not a shape is known. The population \<^verbatim>\<open>IFNodes()\<close>
  after one step under the drive \<open>-60\<close> has no shape and the voltage \<open>[-60, -60]\<close>; a reset
  with no shape raises nothing and leaves the voltage \<open>[-65, -65]\<close>.
\<close>

theorem reset_without_shape_changes_voltage:
  "shape IFNodes_stepped = None \<and>
   fst (IFNodes_reset' None IFNodes_stepped) = Inr () \<and>
   vals (IFNodes.v IFNodes_stepped) = [-60, -60] \<and>
   vals (IFNodes.v (snd (IFNodes_reset' None IFNodes_stepped))) = [-65, -65] \<and>
   snd (IFNodes_reset' None IFNodes_stepped) \<noteq> IFNodes_stepped"
proof -
  have a: "IFNodes_reset' None IFNodes_stepped =
             (Inr (), IFNodes_stepped\<lparr>IFNodes.v := (drive2 (-65))\<lparr>requires_grad := True\<rparr>\<rparr>)"
    by (simp add: IFNodes_reset'_def Nodes_reset'_def IFNodes_stepped_def IFNodes_fresh_def
        torch_mul_def torch_ones_like_def broadcast_shapes_def result_device_def result_type_def
        pad_dims_def scalar_def drive2_def numel_def eval_nat_numeral)
  have b: "vals (IFNodes.v IFNodes_stepped) = [-60, -60]"
    by (simp add: IFNodes_stepped_def drive2_def)
  have c: "shape IFNodes_stepped = None"
    by (simp add: IFNodes_stepped_def IFNodes_fresh_def)
  have d: "IFNodes.v (IFNodes_stepped\<lparr>IFNodes.v := (drive2 (-65))\<lparr>requires_grad := True\<rparr>\<rparr>) \<noteq>
           IFNodes.v IFNodes_stepped"
    by (simp add: IFNodes_stepped_def drive2_def)
  then have e: "IFNodes_stepped\<lparr>IFNodes.v := (drive2 (-65))\<lparr>requires_grad := True\<rparr>\<rparr> \<noteq> IFNodes_stepped"
    by metis
  show ?thesis
    using a b c e by (simp add: drive2_def)
qed

text \<open>
  C5, amended. For a population whose shape is unknown, a reset with no shape is a no-op
  of the base class: it raises nothing and changes nothing. The override of both models
  then assigns the voltage: it returns the exception of the product of the reset voltage
  and ones of the sizes of the spikes, with the object unchanged, or else changes the
  voltage alone, to that product; for a scalar reset voltage \<open>x\<close> on the CPU the call
  returns and the voltage has the sizes of the spikes and every element \<open>x\<close> (no element,
  on a freshly constructed population).
\<close>

theorem reset_without_shape:
  "(shape b = None \<longrightarrow> Nodes_reset' None b = (Inr (), b)) \<and>
   (shape p = None \<longrightarrow>
      IFNodes_reset' None p =
        (case torch_mul (IFNodes.reset p) (torch_ones_like (s p)) of
           Inl e \<Rightarrow> (Inl e, p)
         | Inr t \<Rightarrow> (Inr (), p\<lparr>IFNodes.v := t\<rparr>)) \<and>
      (\<forall>x. list_all (\<lambda>d. 0 \<le> d) (dims (s p)) \<and> dims (IFNodes.reset p) = [] \<and>
           vals (IFNodes.reset p) = [x] \<and> device (IFNodes.reset p) = CPU \<longrightarrow>
           (\<exists>t. IFNodes_reset' None p = (Inr (), p\<lparr>IFNodes.v := t\<rparr>) \<and> dims t = dims (s p) \<and>
                vals t = replicate (numel (dims (s p))) x))) \<and>
   (shape q = None \<longrightarrow>
      LIFNodes_reset' None q =
        (case torch_mul (LIFNodes.reset q) (torch_ones_like (s q)) of
           Inl e \<Rightarrow> (Inl e, q)
         | Inr t \<Rightarrow> (Inr (), q\<lparr>LIFNodes.v := t\<rparr>)) \<and>
      (\<forall>x. list_all (\<lambda>d. 0 \<le> d) (dims (s q)) \<and> dims (LIFNodes.reset q) = [] \<and>
           vals (LIFNodes.reset q) = [x] \<and> device (LIFNodes.reset q) = CPU \<longrightarrow>
           (\<exists>t. LIFNodes_reset' None q = (Inr (), q\<lparr>LIFNodes.v := t\<rparr>) \<and> dims t = dims (s q) \<and>
                vals t = replicate (numel (dims (s q))) x)))"
proof (intro conjI impI allI)
  assume "shape b = None"
  then show "Nodes_reset' None b = (Inr (), b)"
    by (simp add: Nodes_reset'_def)
next
  assume "shape p = None"
  then show "IFNodes_reset' None p =
        (case torch_mul (IFNodes.reset p) (torch_ones_like (s p)) of
           Inl e \<Rightarrow> (Inl e, p)
         | Inr t \<Rightarrow> (Inr (), p\<lparr>IFNodes.v := t\<rparr>))"
    by (simp add: IFNodes_reset'_def Nodes_reset'_def)
next
  fix x
  assume sh: "shape p = None"
    and h: "list_all (\<lambda>d. 0 \<le> d) (dims (s p)) \<and> dims (IFNodes.reset p) = [] \<and>
           vals (IFNodes.reset p) = [x] \<and> device (IFNodes.reset p) = CPU"
  obtain t where "torch_mul (IFNodes.reset p) (torch_ones_like (s p)) = Inr t"
    and "dims t = dims (s p)" and "vals t = replicate (numel (dims (s p))) x"
    using torch_mul_scalar_ones [of "s p" "IFNodes.reset p" x] h by auto
  then show "\<exists>t. IFNodes_reset' None p = (Inr (), p\<lparr>IFNodes.v := t\<rparr>) \<and> dims t = dims (s p) \<and>
                vals t = replicate (numel (dims (s p))) x"
    using sh by (intro exI [of _ t]) (simp add: IFNodes_reset'_def Nodes_reset'_def)
next
  assume "shape q = None"
  then show "LIFNodes_reset' None q =
        (case torch_mul (LIFNodes.reset q) (torch_ones_like (s q)) of
           Inl e \<Rightarrow> (Inl e, q)
         | Inr t \<Rightarrow> (Inr (), q\<lparr>LIFNodes.v := t\<rparr>))"
    by (simp add: LIFNodes_reset'_def Nodes_reset'_def)
next
  fix x
  assume sh: "shape q = None"
    and h: "list_all (\<lambda>d. 0 \<le> d) (dims (s q)) \<and> dims (LIFNodes.reset q) = [] \<and>
           vals (LIFNodes.reset q) = [x] \<and> device (LIFNodes.reset q) = CPU"
  obtain t where "torch_mul (LIFNodes.reset q) (torch_ones_like (s q)) = Inr t"
    and "dims t = dims (s q)" and "vals t = replicate (numel (dims (s q))) x"
    using torch_mul_scalar_ones [of "s q" "LIFNodes.reset q" x] h by auto
  then show "\<exists>t. LIFNodes_reset' None q = (Inr (), q\<lparr>LIFNodes.v := t\<rparr>) \<and> dims t = dims (s q) \<and>
                vals t = replicate (numel (dims (s q))) x"
    using sh by (intro exI [of _ t]) (simp add: LIFNodes_reset'_def Nodes_reset'_def)
qed

theorem reset_without_shape_witness:
  "shape \<lparr>dt = None, s = FloatTensor, n = None, shape = None\<rparr> = None \<and>
   Nodes_reset' None \<lparr>dt = None, s = FloatTensor, n = None, shape = None\<rparr> =
     (Inr (), \<lparr>dt = None, s = FloatTensor, n = None, shape = None\<rparr>) \<and>
   shape IFNodes_fresh = None \<and>
   list_all (\<lambda>d. 0 \<le> d) (dims (s IFNodes_fresh)) \<and>
   dims (IFNodes.reset IFNodes_fresh) = [] \<and> vals (IFNodes.reset IFNodes_fresh) = [-65] \<and>
   device (IFNodes.reset IFNodes_fresh) = CPU \<and>
   (\<exists>t. IFNodes_reset' None IFNodes_fresh = (Inr (), IFNodes_fresh\<lparr>IFNodes.v := t\<rparr>) \<and>
        dims t = [0] \<and> vals t = []) \<and>
   shape LIFNodes_fresh = None \<and>
   list_all (\<lambda>d. 0 \<le> d) (dims (s LIFNodes_fresh)) \<and>
   dims (LIFNodes.reset LIFNodes_fresh) = [] \<and> vals (LIFNodes.reset LIFNodes_fresh) = [-65] \<and>
   device (LIFNodes.reset LIFNodes_fresh) = CPU \<and>
   (\<exists>t. LIFNodes_reset' None LIFNodes_fresh = (Inr (), LIFNodes_fresh\<lparr>LIFNodes.v := t\<rparr>) \<and>
        dims t = [0] \<and> vals t = [])"
proof -
  have hp: "shape IFNodes_fresh = None \<and> list_all (\<lambda>d. 0 \<le> d) (dims (s IFNodes_fresh)) \<and>
      dims (IFNodes.reset IFNodes_fresh) = [] \<and> vals (IFNodes.reset IFNodes_fresh) = [-65] \<and>
      device (IFNodes.reset IFNodes_fresh) = CPU \<and> dims (s IFNodes_fresh) = [0]"
    by (simp add: IFNodes_fresh_def scalar_def FloatTensor_def)
  have hq: "shape LIFNodes_fresh = None \<and> list_all (\<lambda>d. 0 \<le> d) (dims (s LIFNodes_fresh)) \<and>
      dims (LIFNodes.reset LIFNodes_fresh) = [] \<and> vals (LIFNodes.reset LIFNodes_fresh) = [-65] \<and>
      device (LIFNodes.reset LIFNodes_fresh) = CPU \<and> dims (s LIFNodes_fresh) = [0]"
    by (simp add: LIFNodes_fresh_def scalar_def FloatTensor_def)
  have n0: "numel [0] = 0"
    by (simp add: numel_def)
  note inst = reset_without_shape
      [of "\<lparr>dt = None, s = FloatTensor, n = None, shape = None\<rparr>" IFNodes_fresh LIFNodes_fresh]
  have b: "Nodes_reset' None \<lparr>dt = None, s = FloatTensor, n = None, shape = None\<rparr> =
     (Inr (), \<lparr>dt = None, s = FloatTensor, n = None, shape = None\<rparr>)"
    using inst by simp
  have "\<exists>t. IFNodes_reset' None IFNodes_fresh = (Inr (), IFNodes_fresh\<lparr>IFNodes.v := t\<rparr>) \<and>
          dims t = dims (s IFNodes_fresh) \<and>
          vals t = replicate (numel (dims (s IFNodes_fresh))) (-65)"
    by (rule inst [THEN conjunct2, THEN conjunct1, THEN mp, THEN conjunct2, THEN spec, THEN mp])
      (simp_all add: hp)
  then have ep: "\<exists>t. IFNodes_reset' None IFNodes_fresh = (Inr (), IFNodes_fresh\<lparr>IFNodes.v := t\<rparr>) \<and>
          dims t = [0] \<and> vals t = []"
    using hp by (simp add: n0)
  have "\<exists>t. LIFNodes_reset' None LIFNodes_fresh = (Inr (), LIFNodes_fresh\<lparr>LIFNodes.v := t\<rparr>) \<and>
          dims t = dims (s LIFNodes_fresh) \<and>
          vals t = replicate (numel (dims (s LIFNodes_fresh))) (-65)"
    by (rule inst [THEN conjunct2, THEN conjunct2, THEN mp, THEN conjunct2, THEN spec, THEN mp])
      (simp_all add: hq)
  then have eq: "\<exists>t. LIFNodes_reset' None LIFNodes_fresh = (Inr (), LIFNodes_fresh\<lparr>LIFNodes.v := t\<rparr>) \<and>
          dims t = [0] \<and> vals t = []"
    using hq by (simp add: n0)
  show ?thesis
    using b ep eq hp hq by simp
qed

text \<open>
  C6. The hook, for any class (any reset method and any loader behind \<^verbatim>\<open>super()\<close>): with no
  spikes entry under \<^verbatim>\<open>prefix + "s"\<close> it raises \<^verbatim>\<open>KeyError\<close> and leaves the object and the
  report lists as they were; with the entry, the loader runs on the object that the reset
  to the sizes of the entry returns, and does not run when the reset raises.
\<close>

theorem load_needs_spikes_entry:
  "(map_of sd (prefix @ ''s'') = None \<longrightarrow>
      Nodes_load_from_state_dict reset_m super_load sd prefix strict rep self =
        (Inl (KeyError (prefix @ ''s'')), self, rep)) \<and>
   (\<forall>t self1. map_of sd (prefix @ ''s'') = Some t \<and>
        reset_m (Some (dims t)) self = (Inr (), self1) \<longrightarrow>
      Nodes_load_from_state_dict reset_m super_load sd prefix strict rep self =
        (Inr (), super_load sd prefix strict rep self1)) \<and>
   (\<forall>t e self1. map_of sd (prefix @ ''s'') = Some t \<and>
        reset_m (Some (dims t)) self = (Inl e, self1) \<longrightarrow>
      Nodes_load_from_state_dict reset_m super_load sd prefix strict rep self =
        (Inl e, self1, rep))"
  by (auto simp: Nodes_load_from_state_dict_def split: prod.splits)

theorem load_needs_spikes_entry_witness:
  "map_of [] (''X.'' @ ''s'') = (None :: tensor option) \<and>
   Nodes_load [] ''X.'' True empty_report Nodes_fresh =
     (Inl (KeyError ''X.s''), Nodes_fresh, empty_report) \<and>
   map_of snapshot23 (''X.'' @ ''s'') = Some spikes23 \<and>
   Nodes_reset' (Some (dims spikes23)) Nodes_fresh =
     (Inr (), Nodes_fresh\<lparr>shape := Some [2, 3], s := spikes23\<lparr>vals := [0, 0, 0, 0, 0, 0]\<rparr>\<rparr>) \<and>
   Nodes_load snapshot23 ''X.'' True empty_report Nodes_fresh =
     (Inr (),
      Module_load_from_state_dict Nodes_local_state Nodes_put_state snapshot23 ''X.'' True
        empty_report
        (Nodes_fresh\<lparr>shape := Some [2, 3], s := spikes23\<lparr>vals := [0, 0, 0, 0, 0, 0]\<rparr>\<rparr>)) \<and>
   fst (IFNodes_reset' (Some (dims spikes23)) IFNodes_pair) =
     Inl (RuntimeError ''The size of tensor a must match the size of tensor b'') \<and>
   IFNodes_load snapshot23 ''X.'' True empty_report IFNodes_pair =
     (Inl (RuntimeError ''The size of tensor a must match the size of tensor b''),
      snd (IFNodes_reset' (Some (dims spikes23)) IFNodes_pair), empty_report)"
proof -
  have none: "map_of [] (''X.'' @ ''s'') = (None :: tensor option)"
    by simp
  have sn: "map_of snapshot23 (''X.'' @ ''s'') = Some spikes23"
    using snapshot23_spikes by simp
  have r: "Nodes_reset' (Some (dims spikes23)) Nodes_fresh =
     (Inr (), Nodes_fresh\<lparr>shape := Some [2, 3], s := spikes23\<lparr>vals := [0, 0, 0, 0, 0, 0]\<rparr>\<rparr>)"
    by (simp add: Nodes_reset'_def Nodes_fresh_def torch_zeros_def spikes23_def FloatTensor_def
        numel_def eval_nat_numeral)
  have badfst: "fst (IFNodes_reset' (Some (dims spikes23)) IFNodes_pair) =
     Inl (RuntimeError ''The size of tensor a must match the size of tensor b'')"
    by (simp add: IFNodes_reset'_def Nodes_reset'_def IFNodes_pair_def IFNodes_fresh_def
        torch_zeros_def torch_mul_def torch_ones_like_def broadcast_shapes_def spikes23_def
        FloatTensor_def)
  then have bad: "IFNodes_reset' (Some (dims spikes23)) IFNodes_pair =
     (Inl (RuntimeError ''The size of tensor a must match the size of tensor b''),
      snd (IFNodes_reset' (Some (dims spikes23)) IFNodes_pair))"
    by (metis prod.collapse)
  have a: "Nodes_load [] ''X.'' True empty_report Nodes_fresh =
     (Inl (KeyError ''X.s''), Nodes_fresh, empty_report)"
    using load_needs_spikes_entry
      [of "[]" "''X.''" Nodes_reset'
        "Module_load_from_state_dict Nodes_local_state Nodes_put_state" True empty_report
        Nodes_fresh, THEN conjunct1] none
    by (simp add: Nodes_load_def)
  have b: "Nodes_load snapshot23 ''X.'' True empty_report Nodes_fresh =
     (Inr (),
      Module_load_from_state_dict Nodes_local_state Nodes_put_state snapshot23 ''X.'' True
        empty_report
        (Nodes_fresh\<lparr>shape := Some [2, 3], s := spikes23\<lparr>vals := [0, 0, 0, 0, 0, 0]\<rparr>\<rparr>))"
    using load_needs_spikes_entry
      [of snapshot23 "''X.''" Nodes_reset'
        "Module_load_from_state_dict Nodes_local_state Nodes_put_state" True empty_report
        Nodes_fresh, THEN conjunct2, THEN conjunct1] sn r
    unfolding Nodes_load_def by blast
  have c: "IFNodes_load snapshot23 ''X.'' True empty_report IFNodes_pair =
     (Inl (RuntimeError ''The size of tensor a must match the size of tensor b''),
      snd (IFNodes_reset' (Some (dims spikes23)) IFNodes_pair), empty_report)"
    using load_needs_spikes_entry
      [of snapshot23 "''X.''" IFNodes_reset'
        "Module_load_from_state_dict IFNodes_local_state IFNodes_put_state" True empty_report
        IFNodes_pair, THEN conjunct2, THEN conjunct2] sn bad
    unfolding IFNodes_load_def by blast
  show ?thesis
    using none a sn r b badfst c by simp
qed

text \<open>
  C7. A step of either model, for any kernels: when the voltage kernel (called on the
  drive and the previous voltage, and on \<^verbatim>\<open>tc_decay\<close> and \<^verbatim>\<open>rest\<close> for the leaky model)
  returns \<open>v1\<close> and the spike kernel, called on \<open>v1\<close>, \<^verbatim>\<open>thresh\<close>, \<^verbatim>\<open>reset\<close>, \<^verbatim>\<open>lbound\<close> and
  \<^verbatim>\<open>scale\<close>, returns spikes and a voltage, the step returns these spikes and the object
  holds them and this voltage. When the voltage kernel raises, the object is unchanged;
  when the spike kernel raises, the object holds \<open>v1\<close>. No other value of a kernel is
  read: two pairs of kernels that agree on these two calls give the same step.
\<close>

theorem forward_kernel_calls:
  "(if_update x (IFNodes.v p) = Inr v1 \<and>
    super_spike_update v1 (IFNodes.thresh p) (IFNodes.reset p) (IFNodes.lbound p)
      (IFNodes.scale p) = Inr (s2, v2) \<longrightarrow>
      IFNodes_forward if_update super_spike_update x p =
        (Inr s2, p\<lparr>s := s2, IFNodes.v := v2\<rparr>)) \<and>
   (lif_update x (LIFNodes.v q) (LIFNodes.tc_decay q) (LIFNodes.rest q) = Inr w1 \<and>
    super_spike_update w1 (LIFNodes.thresh q) (LIFNodes.reset q) (LIFNodes.lbound q)
      (LIFNodes.scale q) = Inr (t2, w2) \<longrightarrow>
      LIFNodes_forward lif_update super_spike_update x q =
        (Inr t2, q\<lparr>s := t2, LIFNodes.v := w2\<rparr>)) \<and>
   (if_update x (IFNodes.v p) = Inl e \<longrightarrow>
      IFNodes_forward if_update super_spike_update x p = (Inl e, p)) \<and>
   (if_update x (IFNodes.v p) = Inr v1 \<and>
    super_spike_update v1 (IFNodes.thresh p) (IFNodes.reset p) (IFNodes.lbound p)
      (IFNodes.scale p) = Inl e \<longrightarrow>
      IFNodes_forward if_update super_spike_update x p = (Inl e, p\<lparr>IFNodes.v := v1\<rparr>)) \<and>
   (lif_update x (LIFNodes.v q) (LIFNodes.tc_decay q) (LIFNodes.rest q) = Inl e \<longrightarrow>
      LIFNodes_forward lif_update super_spike_update x q = (Inl e, q)) \<and>
   (lif_update x (LIFNodes.v q) (LIFNodes.tc_decay q) (LIFNodes.rest q) = Inr w1 \<and>
    super_spike_update w1 (LIFNodes.thresh q) (LIFNodes.reset q) (LIFNodes.lbound q)
      (LIFNodes.scale q) = Inl e \<longrightarrow>
      LIFNodes_forward lif_update super_spike_update x q = (Inl e, q\<lparr>LIFNodes.v := w1\<rparr>)) \<and>
   (if_update x (IFNodes.v p) = if_update' x (IFNodes.v p) \<and>
    (\<forall>u. if_update x (IFNodes.v p) = Inr u \<longrightarrow>
       super_spike_update u (IFNodes.thresh p) (IFNodes.reset p) (IFNodes.lbound p)
         (IFNodes.scale p) =
       super_spike_update' u (IFNodes.thresh p) (IFNodes.reset p) (IFNodes.lbound p)
         (IFNodes.scale p)) \<longrightarrow>
      IFNodes_forward if_update super_spike_update x p =
      IFNodes_forward if_update' super_spike_update' x p) \<and>
   (lif_update x (LIFNodes.v q) (LIFNodes.tc_decay q) (LIFNodes.rest q) =
      lif_update' x (LIFNodes.v q) (LIFNodes.tc_decay q) (LIFNodes.rest q) \<and>
    (\<forall>u. lif_update x (LIFNodes.v q) (LIFNodes.tc_decay q) (LIFNodes.rest q) = Inr u \<longrightarrow>
       super_spike_update u (LIFNodes.thresh q) (LIFNodes.reset q) (LIFNodes.lbound q)
         (LIFNodes.scale q) =
       super_spike_update' u (LIFNodes.thresh q) (LIFNodes.reset q) (LIFNodes.lbound q)
         (LIFNodes.scale q)) \<longrightarrow>
      LIFNodes_forward lif_update super_spike_update x q =
      LIFNodes_forward lif_update' super_spike_update' x q)"
proof -
  have paths: "(if_update x (IFNodes.v p) = Inr v1 \<and>
    super_spike_update v1 (IFNodes.thresh p) (IFNodes.reset p) (IFNodes.lbound p)
      (IFNodes.scale p) = Inr (s2, v2) \<longrightarrow>
      IFNodes_forward if_update super_spike_update x p =
        (Inr s2, p\<lparr>s := s2, IFNodes.v := v2\<rparr>)) \<and>
   (lif_update x (LIFNodes.v q) (LIFNodes.tc_decay q) (LIFNodes.rest q) = Inr w1 \<and>
    super_spike_update w1 (LIFNodes.thresh q) (LIFNodes.reset q) (LIFNodes.lbound q)
      (LIFNodes.scale q) = Inr (t2, w2) \<longrightarrow>
      LIFNodes_forward lif_update super_spike_update x q =
        (Inr t2, q\<lparr>s := t2, LIFNodes.v := w2\<rparr>)) \<and>
   (if_update x (IFNodes.v p) = Inl e \<longrightarrow>
      IFNodes_forward if_update super_spike_update x p = (Inl e, p)) \<and>
   (if_update x (IFNodes.v p) = Inr v1 \<and>
    super_spike_update v1 (IFNodes.thresh p) (IFNodes.reset p) (IFNodes.lbound p)
      (IFNodes.scale p) = Inl e \<longrightarrow>
      IFNodes_forward if_update super_spike_update x p = (Inl e, p\<lparr>IFNodes.v := v1\<rparr>)) \<and>
   (lif_update x (LIFNodes.v q) (LIFNodes.tc_decay q) (LIFNodes.rest q) = Inl e \<longrightarrow>
      LIFNodes_forward lif_update super_spike_update x q = (Inl e, q)) \<and>
   (lif_update x (LIFNodes.v q) (LIFNodes.tc_decay q) (LIFNodes.rest q) = Inr w1 \<and>
    super_spike_update w1 (LIFNodes.thresh q) (LIFNodes.reset q) (LIFNodes.lbound q)
      (LIFNodes.scale q) = Inl e \<longrightarrow>
      LIFNodes_forward lif_update super_spike_update x q = (Inl e, q\<lparr>LIFNodes.v := w1\<rparr>))"
    by (simp add: IFNodes_forward_def LIFNodes_forward_def)
  show ?thesis
    using paths
      IFNodes_forward_reads [of if_update x p if_update' super_spike_update super_spike_update']
      LIFNodes_forward_reads [of lif_update x q lif_update' super_spike_update super_spike_update']
    by blast
qed

theorem forward_kernel_calls_witness:
  "if_update_spec (drive2 (-60)) (IFNodes.v IFNodes_fresh) = Inr (drive2 (-60)) \<and>
   super_spike_update_spec (drive2 (-60)) (IFNodes.thresh IFNodes_fresh)
     (IFNodes.reset IFNodes_fresh) (IFNodes.lbound IFNodes_fresh) (IFNodes.scale IFNodes_fresh) =
     Inr (drive2 0, drive2 (-60)) \<and>
   IFNodes_forward if_update_spec super_spike_update_spec (drive2 (-60)) IFNodes_fresh =
     (Inr (drive2 0), IFNodes_fresh\<lparr>s := drive2 0, IFNodes.v := drive2 (-60)\<rparr>) \<and>
   LIFNodes_forward (\<lambda>x w tc r. if_update_spec x w) super_spike_update_spec (drive2 (-60))
     LIFNodes_fresh =
     (Inr (drive2 0), LIFNodes_fresh\<lparr>s := drive2 0, LIFNodes.v := drive2 (-60)\<rparr>) \<and>
   IFNodes_forward (\<lambda>x w. Inl (RuntimeError ''drive'')) super_spike_update_spec (drive2 (-60))
     IFNodes_fresh = (Inl (RuntimeError ''drive''), IFNodes_fresh) \<and>
   IFNodes_forward if_update_spec (\<lambda>w th rs lb sc. Inl (RuntimeError ''spike'')) (drive2 (-60))
     IFNodes_fresh = (Inl (RuntimeError ''spike''), IFNodes_fresh\<lparr>IFNodes.v := drive2 (-60)\<rparr>) \<and>
   LIFNodes_forward (\<lambda>x w tc r. Inl (RuntimeError ''drive'')) super_spike_update_spec
     (drive2 (-60)) LIFNodes_fresh = (Inl (RuntimeError ''drive''), LIFNodes_fresh) \<and>
   LIFNodes_forward (\<lambda>x w tc r. if_update_spec x w)
     (\<lambda>w th rs lb sc. Inl (RuntimeError ''spike'')) (drive2 (-60)) LIFNodes_fresh =
     (Inl (RuntimeError ''spike''), LIFNodes_fresh\<lparr>LIFNodes.v := drive2 (-60)\<rparr>) \<and>
   (\<lambda>x w. Inr x) (drive2 (-60)) (IFNodes.v IFNodes_fresh) =
     if_update_spec (drive2 (-60)) (IFNodes.v IFNodes_fresh) \<and>
   IFNodes_forward (\<lambda>x w. Inr x) super_spike_update_spec (drive2 (-60)) IFNodes_fresh =
     IFNodes_forward if_update_spec super_spike_update_spec (drive2 (-60)) IFNodes_fresh \<and>
   (\<lambda>x w tc r. Inr x) (drive2 (-60)) (LIFNodes.v LIFNodes_fresh)
     (LIFNodes.tc_decay LIFNodes_fresh) (LIFNodes.rest LIFNodes_fresh) =
     if_update_spec (drive2 (-60)) (LIFNodes.v LIFNodes_fresh) \<and>
   LIFNodes_forward (\<lambda>x w tc r. Inr x) super_spike_update_spec (drive2 (-60)) LIFNodes_fresh =
     LIFNodes_forward (\<lambda>x w tc r. if_update_spec x w) super_spike_update_spec (drive2 (-60))
       LIFNodes_fresh"
proof -
  have a: "if_update_spec (drive2 (-60)) (IFNodes.v IFNodes_fresh) = Inr (drive2 (-60))"
    using kernels_on_fresh by (simp add: IFNodes_fresh_def)
  have b: "super_spike_update_spec (drive2 (-60)) (IFNodes.thresh IFNodes_fresh)
     (IFNodes.reset IFNodes_fresh) (IFNodes.lbound IFNodes_fresh) (IFNodes.scale IFNodes_fresh) =
     Inr (drive2 0, drive2 (-60))"
    using kernels_on_fresh by (simp add: IFNodes_fresh_def)
  have c: "if_update_spec (drive2 (-60)) (LIFNodes.v LIFNodes_fresh) = Inr (drive2 (-60))"
    using kernels_on_fresh by (simp add: LIFNodes_fresh_def)
  have d: "super_spike_update_spec (drive2 (-60)) (LIFNodes.thresh LIFNodes_fresh)
     (LIFNodes.reset LIFNodes_fresh) (LIFNodes.lbound LIFNodes_fresh)
     (LIFNodes.scale LIFNodes_fresh) = Inr (drive2 0, drive2 (-60))"
    using kernels_on_fresh by (simp add: LIFNodes_fresh_def)
  have e: "IFNodes_forward if_update_spec super_spike_update_spec (drive2 (-60)) IFNodes_fresh =
     (Inr (drive2 0), IFNodes_fresh\<lparr>s := drive2 0, IFNodes.v := drive2 (-60)\<rparr>)"
    using forward_kernel_calls
      [THEN conjunct1, of if_update_spec "drive2 (-60)" IFNodes_fresh "drive2 (-60)"
        super_spike_update_spec "drive2 0" "drive2 (-60)"] a b
    by blast
  have f: "LIFNodes_forward (\<lambda>x w tc r. if_update_spec x w) super_spike_update_spec
      (drive2 (-60)) LIFNodes_fresh =
     (Inr (drive2 0), LIFNodes_fresh\<lparr>s := drive2 0, LIFNodes.v := drive2 (-60)\<rparr>)"
    using forward_kernel_calls
      [THEN conjunct2, THEN conjunct1, of "\<lambda>x w tc r. if_update_spec x w" "drive2 (-60)"
        LIFNodes_fresh "drive2 (-60)" super_spike_update_spec "drive2 0" "drive2 (-60)"] c d
    by simp
  have g: "IFNodes_forward (\<lambda>x w. Inl (RuntimeError ''drive'')) super_spike_update_spec
      (drive2 (-60)) IFNodes_fresh = (Inl (RuntimeError ''drive''), IFNodes_fresh)"
    using forward_kernel_calls
      [THEN conjunct2, THEN conjunct2, THEN conjunct1,
        of "\<lambda>x w. Inl (RuntimeError ''drive'')" "drive2 (-60)" IFNodes_fresh
        "RuntimeError ''drive''" super_spike_update_spec]
    by simp
  have h: "IFNodes_forward if_update_spec (\<lambda>w th rs lb sc. Inl (RuntimeError ''spike''))
      (drive2 (-60)) IFNodes_fresh =
      (Inl (RuntimeError ''spike''), IFNodes_fresh\<lparr>IFNodes.v := drive2 (-60)\<rparr>)"
    using forward_kernel_calls
      [THEN conjunct2, THEN conjunct2, THEN conjunct2, THEN conjunct1,
        of if_update_spec "drive2 (-60)" IFNodes_fresh "drive2 (-60)"
        "\<lambda>w th rs lb sc. Inl (RuntimeError ''spike'')" "RuntimeError ''spike''"] a
    by simp
  have i: "LIFNodes_forward (\<lambda>x w tc r. Inl (RuntimeError ''drive'')) super_spike_update_spec
      (drive2 (-60)) LIFNodes_fresh = (Inl (RuntimeError ''drive''), LIFNodes_fresh)"
    using forward_kernel_calls
      [THEN conjunct2, THEN conjunct2, THEN conjunct2, THEN conjunct2, THEN conjunct1,
        of "\<lambda>x w tc r. Inl (RuntimeError ''drive'')" "drive2 (-60)" LIFNodes_fresh
        "RuntimeError ''drive''" super_spike_update_spec]
    by simp
  have j: "LIFNodes_forward (\<lambda>x w tc r. if_update_spec x w)
      (\<lambda>w th rs lb sc. Inl (RuntimeError ''spike'')) (drive2 (-60)) LIFNodes_fresh =
      (Inl (RuntimeError ''spike''), LIFNodes_fresh\<lparr>LIFNodes.v := drive2 (-60)\<rparr>)"
    using forward_kernel_calls
      [THEN conjunct2, THEN conjunct2, THEN conjunct2, THEN conjunct2, THEN conjunct2,
        THEN conjunct1, of "\<lambda>x w tc r. if_update_spec x w" "drive2 (-60)" LIFNodes_fresh "drive2 (-60)"
        "\<lambda>w th rs lb sc. Inl (RuntimeError ''spike'')" "RuntimeError ''spike''"] c
    by simp
  have k: "IFNodes_forward (\<lambda>x w. Inr x) super_spike_update_spec (drive2 (-60)) IFNodes_fresh =
     IFNodes_forward if_update_spec super_spike_update_spec (drive2 (-60)) IFNodes_fresh"
    using forward_kernel_calls
      [where if_update = "\<lambda>x w. Inr x" and if_update' = if_update_spec
          and super_spike_update = super_spike_update_spec
          and super_spike_update' = super_spike_update_spec
          and x = "drive2 (-60)" and p = IFNodes_fresh,
        THEN conjunct2, THEN conjunct2, THEN conjunct2, THEN conjunct2, THEN conjunct2,
        THEN conjunct2, THEN conjunct1] a
    by simp
  have l: "LIFNodes_forward (\<lambda>x w tc r. Inr x) super_spike_update_spec (drive2 (-60))
      LIFNodes_fresh =
     LIFNodes_forward (\<lambda>x w tc r. if_update_spec x w) super_spike_update_spec (drive2 (-60))
       LIFNodes_fresh"
    using forward_kernel_calls
      [where lif_update = "\<lambda>x w tc r. Inr x"
          and lif_update' = "\<lambda>x w tc r. if_update_spec x w"
          and super_spike_update = super_spike_update_spec
          and super_spike_update' = super_spike_update_spec
          and x = "drive2 (-60)" and q = LIFNodes_fresh,
        THEN conjunct2, THEN conjunct2, THEN conjunct2, THEN conjunct2, THEN conjunct2,
        THEN conjunct2, THEN conjunct2] c
    by simp
  show ?thesis
    using a b c e f g h i j k l by simp
qed

text \<open>
  C8. With no parameter given, the constructors store \<open>thresh = -52\<close>, \<open>reset = -65\<close>,
  \<open>lbound = -100000\<close> and \<open>scale = 100\<close>, and for the leaky model \<open>rest = -65\<close> and
  \<open>tc_decay = 100\<close>, as scalars; whatever is given, every parameter carries a gradient but
  \<^verbatim>\<open>scale\<close>, which carries none.
\<close>

theorem default_parameters:
  "(\<forall>p. IFNodes_init n_arg shape_arg None None None None = Inr p \<longrightarrow>
        IFNodes.thresh p = scalar (-52.0) True \<and> IFNodes.reset p = scalar (-65.0) True \<and>
        IFNodes.lbound p = scalar (-100000) True \<and> IFNodes.scale p = scalar 100.0 False) \<and>
   (\<forall>q. LIFNodes_init n_arg shape_arg None None None None None None = Inr q \<longrightarrow>
        LIFNodes.thresh q = scalar (-52.0) True \<and> LIFNodes.reset q = scalar (-65.0) True \<and>
        LIFNodes.lbound q = scalar (-100000) True \<and> LIFNodes.rest q = scalar (-65.0) True \<and>
        LIFNodes.tc_decay q = scalar 100.0 True \<and> LIFNodes.scale q = scalar 100.0 False) \<and>
   (\<forall>p. IFNodes_init n_arg shape_arg th rs lb sc = Inr p \<longrightarrow>
        requires_grad (IFNodes.thresh p) \<and> requires_grad (IFNodes.reset p) \<and>
        requires_grad (IFNodes.lbound p) \<and> \<not> requires_grad (IFNodes.scale p)) \<and>
   (\<forall>q. LIFNodes_init n_arg shape_arg th rs lb rt tc sc = Inr q \<longrightarrow>
        requires_grad (LIFNodes.thresh q) \<and> requires_grad (LIFNodes.reset q) \<and>
        requires_grad (LIFNodes.lbound q) \<and> requires_grad (LIFNodes.rest q) \<and>
        requires_grad (LIFNodes.tc_decay q) \<and> \<not> requires_grad (LIFNodes.scale q))"
  by (auto simp: IFNodes_init_def LIFNodes_init_def scalar_def torch_tensor_def Parameter_def
      arg_default_def split: sum.splits option.splits py_num.splits)

theorem default_parameters_witness:
  "IFNodes_init None None None None None None = Inr IFNodes_fresh \<and>
   LIFNodes_init None None None None None None None None = Inr LIFNodes_fresh \<and>
   vals (IFNodes.thresh IFNodes_fresh) = [-52] \<and> vals (IFNodes.reset IFNodes_fresh) = [-65] \<and>
   vals (IFNodes.lbound IFNodes_fresh) = [-100000] \<and> vals (IFNodes.scale IFNodes_fresh) = [100] \<and>
   requires_grad (IFNodes.thresh IFNodes_fresh) \<and> \<not> requires_grad (IFNodes.scale IFNodes_fresh) \<and>
   vals (LIFNodes.rest LIFNodes_fresh) = [-65] \<and> vals (LIFNodes.tc_decay LIFNodes_fresh) = [100] \<and>
   requires_grad (LIFNodes.tc_decay LIFNodes_fresh) \<and>
   \<not> requires_grad (LIFNodes.scale LIFNodes_fresh)"
  using default_parameters [of None None None None None None None None]
    IFNodes_fresh_init LIFNodes_fresh_init
  by (simp add: scalar_def)

text \<open>
  C9. Reset is idempotent: for the base class and both models and every argument (a
  shape or none), a second \<^verbatim>\<open>reset_\<close> right after the first ends with the same outcome
  and the same object as the first alone.
\<close>

theorem reset_twice:
  "Nodes_reset' A (snd (Nodes_reset' A b)) = Nodes_reset' A b \<and>
   IFNodes_reset' A (snd (IFNodes_reset' A p)) = IFNodes_reset' A p \<and>
   LIFNodes_reset' A (snd (LIFNodes_reset' A q)) = LIFNodes_reset' A q"
  by (simp add: Nodes_reset_again IFNodes_reset_again LIFNodes_reset_again)

text \<open>
  C10. A step of either model, for any kernels and whether it returns or raises, leaves
  the object as it was but for the spikes and the voltage: \<^verbatim>\<open>n\<close>, \<^verbatim>\<open>shape\<close>, \<^verbatim>\<open>dt\<close> and
  every parameter are unchanged.
\<close>

theorem forward_frame:
  "(\<exists>s' v'. snd (IFNodes_forward if_update super_spike_update x p) = p\<lparr>s := s', IFNodes.v := v'\<rparr>) \<and>
   (let p' = snd (IFNodes_forward if_update super_spike_update x p) in
      n p' = n p \<and> shape p' = shape p \<and> dt p' = dt p \<and>
      IFNodes.thresh p' = IFNodes.thresh p \<and> IFNodes.reset p' = IFNodes.reset p \<and>
      IFNodes.lbound p' = IFNodes.lbound p \<and> IFNodes.scale p' = IFNodes.scale p) \<and>
   (\<exists>s' v'. snd (LIFNodes_forward lif_update super_spike_update x q) = q\<lparr>s := s', LIFNodes.v := v'\<rparr>) \<and>
   (let q' = snd (LIFNodes_forward lif_update super_spike_update x q) in
      n q' = n q \<and> shape q' = shape q \<and> dt q' = dt q \<and>
      LIFNodes.thresh q' = LIFNodes.thresh q \<and> LIFNodes.reset q' = LIFNodes.reset q \<and>
      LIFNodes.lbound q' = LIFNodes.lbound q \<and> LIFNodes.scale q' = LIFNodes.scale q \<and>
      LIFNodes.rest q' = LIFNodes.rest q \<and> LIFNodes.tc_decay q' = LIFNodes.tc_decay q)"
proof -
  have a: "\<exists>s' v'. snd (IFNodes_forward if_update super_spike_update x p) = p\<lparr>s := s', IFNodes.v := v'\<rparr>"
  proof (cases "if_update x (IFNodes.v p)")
    case (Inl e)
    then have "snd (IFNodes_forward if_update super_spike_update x p) =
        p\<lparr>s := s p, IFNodes.v := IFNodes.v p\<rparr>"
      by (simp add: IFNodes_forward_def)
    then show ?thesis by blast
  next
    case (Inr v1)
    show ?thesis
    proof (cases "super_spike_update v1 (IFNodes.thresh p) (IFNodes.reset p) (IFNodes.lbound p)
        (IFNodes.scale p)")
      case (Inl e)
      then have "snd (IFNodes_forward if_update super_spike_update x p) =
          p\<lparr>s := s p, IFNodes.v := v1\<rparr>"
        using Inr by (simp add: IFNodes_forward_def)
      then show ?thesis by blast
    next
      case r: (Inr sv)
      then have "snd (IFNodes_forward if_update super_spike_update x p) =
          p\<lparr>s := fst sv, IFNodes.v := snd sv\<rparr>"
        using Inr by (simp add: IFNodes_forward_def case_prod_beta)
      then show ?thesis by blast
    qed
  qed
  have b: "\<exists>s' v'. snd (LIFNodes_forward lif_update super_spike_update x q) = q\<lparr>s := s', LIFNodes.v := v'\<rparr>"
  proof (cases "lif_update x (LIFNodes.v q) (LIFNodes.tc_decay q) (LIFNodes.rest q)")
    case (Inl e)
    then have "snd (LIFNodes_forward lif_update super_spike_update x q) =
        q\<lparr>s := s q, LIFNodes.v := LIFNodes.v q\<rparr>"
      by (simp add: LIFNodes_forward_def)
    then show ?thesis by blast
  next
    case (Inr w1)
    show ?thesis
    proof (cases "super_spike_update w1 (LIFNodes.thresh q) (LIFNodes.reset q) (LIFNodes.lbound q)
        (LIFNodes.scale q)")
      case (Inl e)
      then have "snd (LIFNodes_forward lif_update super_spike_update x q) =
          q\<lparr>s := s q, LIFNodes.v := w1\<rparr>"
        using Inr by (simp add: LIFNodes_forward_def)
      then show ?thesis by blast
    next
      case r: (Inr sv)
      then have "snd (LIFNodes_forward lif_update super_spike_update x q) =
          q\<lparr>s := fst sv, LIFNodes.v := snd sv\<rparr>"
        using Inr by (simp add: LIFNodes_forward_def case_prod_beta)
      then show ?thesis by blast
    qed
  qed
  have c: "let p' = snd (IFNodes_forward if_update super_spike_update x p) in
      n p' = n p \<and> shape p' = shape p \<and> dt p' = dt p \<and>
      IFNodes.thresh p' = IFNodes.thresh p \<and> IFNodes.reset p' = IFNodes.reset p \<and>
      IFNodes.lbound p' = IFNodes.lbound p \<and> IFNodes.scale p' = IFNodes.scale p"
    by (simp add: IFNodes_forward_def Let_def split: sum.splits prod.splits)
  have d: "let q' = snd (LIFNodes_forward lif_update super_spike_update x q) in
      n q' = n q \<and> shape q' = shape q \<and> dt q' = dt q \<and>
      LIFNodes.thresh q' = LIFNodes.thresh q \<and> LIFNodes.reset q' = LIFNodes.reset q \<and>
      LIFNodes.lbound q' = LIFNodes.lbound q \<and> LIFNodes.scale q' = LIFNodes.scale q \<and>
      LIFNodes.rest q' = LIFNodes.rest q \<and> LIFNodes.tc_decay q' = LIFNodes.tc_decay q"
    by (simp add: LIFNodes_forward_def Let_def split: sum.splits prod.splits)
  show ?thesis
    using a b c d by blast
qed

end
